theory Spec2Isabelle
  imports Main "HOL-Library.Word" "HOL-Library.Multiset" "HOL-Library.Sublist"
begin

section \<open>JavaScript values, strings and buffers\<close>

text \<open>
  A JavaScript string is a sequence of 16-bit code units; a \<^verbatim>\<open>Buffer\<close> is a sequence of
  bytes. ASCII literals of the source are written with \<open>u\<close>; the Thai literals are given
  by their code units.
\<close>

type_synonym ustring = "16 word list"
type_synonym buffer = "8 word list"

definition u :: "string \<Rightarrow> ustring" where
  "u s = map of_char s"

text \<open>
  The values a JSON request body can hold in the fields the printing code reads.
  \<open>JNum\<close> carries the integral numbers, which JavaScript prints in plain decimal (up
  to 21 digits); \<open>JUndefined\<close> is a missing field. Fractions, objects and arrays in
  these fields are outside the model.
\<close>

datatype jsval = JUndefined | JNull | JBool bool | JNum int | JStr ustring

text \<open>JavaScript truthiness, as used by \<^verbatim>\<open>||\<close> and \<^verbatim>\<open>? :\<close>.\<close>

fun truthy :: "jsval \<Rightarrow> bool" where
  "truthy JUndefined = False"
| "truthy JNull = False"
| "truthy (JBool b) = b"
| "truthy (JNum n) = (n \<noteq> 0)"
| "truthy (JStr s) = (s \<noteq> [])"

text \<open>\<^verbatim>\<open>a || b\<close> and \<^verbatim>\<open>a ?? b\<close>.\<close>

definition js_or :: "jsval \<Rightarrow> jsval \<Rightarrow> jsval" where
  "js_or a b = (if truthy a then a else b)"

definition nullish :: "jsval \<Rightarrow> jsval \<Rightarrow> jsval" where
  "nullish a b = (if a = JUndefined \<or> a = JNull then b else a)"

text \<open>Decimal digits of a natural number (\<^verbatim>\<open>Number.prototype.toString\<close> on integers).\<close>

fun dec_nat :: "nat \<Rightarrow> ustring" where
  "dec_nat n = (if n < 10 then [of_nat (48 + n)]
                else dec_nat (n div 10) @ [of_nat (48 + n mod 10)])"

declare dec_nat.simps [simp del]

definition dec_int :: "int \<Rightarrow> ustring" where
  "dec_int n = (if n < 0 then u ''-'' @ dec_nat (nat (- n)) else dec_nat (nat n))"

text \<open>String conversion, as done by a template literal and by \<^verbatim>\<open>+\<close> with a string.\<close>

fun to_str :: "jsval \<Rightarrow> ustring" where
  "to_str JUndefined = u ''undefined''"
| "to_str JNull = u ''null''"
| "to_str (JBool b) = (if b then u ''true'' else u ''false'')"
| "to_str (JNum n) = dec_int n"
| "to_str (JStr s) = s"

text \<open>\<^verbatim>\<open>Buffer.from(bytes)\<close> on an array of numbers keeps each number modulo 256.\<close>

definition esc :: "int list \<Rightarrow> buffer" where
  "esc bytes = map word_of_int bytes"

definition Buffer_concat :: "buffer list \<Rightarrow> buffer" where
  "Buffer_concat chunks = concat chunks"

section \<open>Command sequences (services/escposPrinter.js)\<close>

definition cutPaper :: buffer where
  "cutPaper = esc [0x1D, 0x56, 0x41, 0x10]"

definition epsonSetThai :: buffer where
  "epsonSetThai = (let ESC = 0x1B in
     Buffer_concat [esc [ESC, 0x40], esc [ESC, 0x52, 0x0B], esc [ESC, 0x74, 0x15]])"

text \<open>
  \<^verbatim>\<open>XPR_CODEPAGE = Number(process.env.XPR_CODEPAGE || 70)\<close> is read once from the
  environment; here it is the parameter \<open>XPR_CODEPAGE\<close>.
\<close>

definition xprinterSetThaiCP874 :: "int \<Rightarrow> buffer" where
  "xprinterSetThaiCP874 XPR_CODEPAGE = (let ESC = 0x1B; GS = 0x1D; FS = 0x1C in
     Buffer_concat [esc [ESC, 0x40], esc [FS, 0x2E], esc [ESC, 0x52, 0x00],
       esc [ESC, 0x74, XPR_CODEPAGE], esc [GS, 0x74, XPR_CODEPAGE], esc [ESC, 0x4D, 0x00]])"

section \<open>Command sequences (the second printer module)\<close>

text \<open>
  The repository holds a second module with the same exported functions. Its
  definitions carry the suffix \<open>_alt\<close>.
\<close>

definition cutPaper_alt :: buffer where
  "cutPaper_alt = (let GS = 0x1D in esc [GS, 0x56, 0x42, 0x00])"

definition epsonSetThai_alt :: buffer where
  "epsonSetThai_alt = (let ESC = 0x1B in
     Buffer_concat [esc [ESC, 0x52, 0x0B], esc [ESC, 0x74, 0x15]])"

definition xprinterSetThaiCP874_alt :: buffer where
  "xprinterSetThaiCP874_alt = (let ESC = 0x1B; GS = 0x1D; FS = 0x1C in
     Buffer_concat [esc [ESC, 0x40], esc [FS, 0x2E], esc [ESC, 0x52, 0x00],
       esc [ESC, 0x74, 70], esc [GS, 0x74, 70], esc [ESC, 0x4D, 0x00]])"

section \<open>The ESC/POS commands named by the specification\<close>



definition cmd_international :: "8 word \<Rightarrow> buffer" where
  "cmd_international n = [0x1B, 0x52, n]"

definition cmd_codepage_esc :: "8 word \<Rightarrow> buffer" where
  "cmd_codepage_esc n = [0x1B, 0x74, n]"



definition charset_thai :: "8 word" where
  "charset_thai = 11"

definition codepage_tis620 :: "8 word" where
  "codepage_tis620 = 21"

section \<open>Receipt composition\<close>

text \<open>
  \<^verbatim>\<open>iconv.encode(text, name)\<close> belongs to the library iconv-lite; it is the parameter
  \<open>iconv_encode\<close>, taking the text and the encoding name.
\<close>

type_synonym codec = "ustring \<Rightarrow> ustring \<Rightarrow> buffer"

definition divider :: ustring where
  "divider = u ''------------------------------'' @ [0x0A]"

text \<open>The thank-you line of the source, followed by a newline.\<close>

definition thanks :: ustring where
  "thanks = [0x0E02, 0x0E2D, 0x0E1A, 0x0E04, 0x0E38, 0x0E13, 0x0E04, 0x0E23, 0x0E31, 0x0E1A,
             0x2F, 0x0E04, 0x0E48, 0x0E30, 0x0A]"

text \<open>The default parameter \<^verbatim>\<open>title = 'SHABU ORDER'\<close> applies to an undefined title.\<close>

definition title_default :: "jsval \<Rightarrow> jsval" where
  "title_default title = (if title = JUndefined then JStr (u ''SHABU ORDER'') else title)"

text \<open>The loop \<^verbatim>\<open>for (const line of lines) chunks.push(iconv.encode((line ?? '') + '\n', cp))\<close>.\<close>

fun push_lines :: "codec \<Rightarrow> ustring \<Rightarrow> buffer list \<Rightarrow> jsval list \<Rightarrow> buffer list" where
  "push_lines iconv_encode cp chunks [] = chunks"
| "push_lines iconv_encode cp chunks (line # rest) =
     push_lines iconv_encode cp
       (chunks @ [iconv_encode (to_str (nullish line (JStr [])) @ [0x0A]) cp]) rest"

text \<open>
  The body shared by the print functions: they differ in the init sequence, the
  encoding name and the cut command only.
\<close>

definition receipt_chunks ::
  "codec \<Rightarrow> buffer \<Rightarrow> ustring \<Rightarrow> buffer \<Rightarrow> jsval \<Rightarrow> jsval list \<Rightarrow> buffer list" where
  "receipt_chunks iconv_encode init cp cut_cmd title lines =
     (let chunks = [];
          chunks = chunks @ [init];
          chunks = chunks @ [iconv_encode ([0x0A] @ to_str (title_default title) @ [0x0A]) cp];
          chunks = chunks @ [iconv_encode divider cp];
          chunks = push_lines iconv_encode cp chunks lines;
          chunks = chunks @ [iconv_encode divider cp];
          chunks = chunks @ [iconv_encode thanks cp];
          chunks = chunks @ [[0x0A, 0x0A, 0x0A]];
          chunks = chunks @ [cut_cmd]
      in chunks)"

definition printEpson_payload :: "codec \<Rightarrow> jsval \<Rightarrow> jsval list \<Rightarrow> buffer" where
  "printEpson_payload iconv_encode title lines =
     Buffer_concat (receipt_chunks iconv_encode epsonSetThai (u ''tis-620'') cutPaper title lines)"

definition printXprinterThaiCP874_payload ::
  "codec \<Rightarrow> int \<Rightarrow> jsval \<Rightarrow> jsval list \<Rightarrow> buffer" where
  "printXprinterThaiCP874_payload iconv_encode XPR_CODEPAGE title lines =
     Buffer_concat (receipt_chunks iconv_encode (xprinterSetThaiCP874 XPR_CODEPAGE)
       (u ''cp874'') cutPaper title lines)"

definition printEpson_payload_alt :: "codec \<Rightarrow> jsval \<Rightarrow> jsval list \<Rightarrow> buffer" where
  "printEpson_payload_alt iconv_encode title lines =
     Buffer_concat (receipt_chunks iconv_encode epsonSetThai_alt (u ''TIS-620'') cutPaper_alt
       title lines)"

definition printXprinterThaiCP874_payload_alt ::
  "codec \<Rightarrow> jsval \<Rightarrow> jsval list \<Rightarrow> buffer" where
  "printXprinterThaiCP874_payload_alt iconv_encode title lines =
     Buffer_concat (receipt_chunks iconv_encode xprinterSetThaiCP874_alt (u ''CP874'')
       cutPaper_alt title lines)"

text \<open>The composition as the specification words it.\<close>

definition spec_compose ::
  "(ustring \<Rightarrow> buffer) \<Rightarrow> buffer \<Rightarrow> buffer \<Rightarrow> ustring \<Rightarrow> ustring list \<Rightarrow> buffer" where
  "spec_compose encode init cut_cmd title_text line_texts =
     init
     @ encode ([0x0A] @ title_text @ [0x0A])
     @ encode (replicate 30 0x2D @ [0x0A])
     @ concat (map (\<lambda>l. encode (l @ [0x0A])) line_texts)
     @ encode (replicate 30 0x2D @ [0x0A])
     @ encode thanks
     @ [0x0A, 0x0A, 0x0A]
     @ cut_cmd"

section \<open>The order handler (server with printer routing)\<close>

text \<open>
  The request body \<^verbatim>\<open>{ table, items, note }\<close>. \<open>b_items\<close> is \<open>None\<close> when the field
  is missing or is not an array. An item is an object with the fields the handler reads.
\<close>

record item =
  name :: jsval
  qty :: jsval
  category :: jsval
  price :: jsval

record body =
  b_table :: jsval
  b_items :: "item list option"
  b_note :: jsval

text \<open>A document of the \<^verbatim>\<open>Category\<close> collection (models/schemas.js).\<close>

record category_doc =
  cat_name :: ustring
  printer :: ustring
  active :: bool

record order_doc =
  orderId :: ustring
  o_table :: jsval
  o_items :: "item list"
  o_note :: jsval
  status :: ustring

datatype target = EPSON | XPRINTER

text \<open>The constants \<^verbatim>\<open>EPSON_IP\<close>, \<^verbatim>\<open>EPSON_PORT\<close>, \<^verbatim>\<open>XPRINTER_IP\<close>, \<^verbatim>\<open>XPRINTER_PORT\<close>.\<close>

record config =
  EPSON_IP :: ustring
  EPSON_PORT :: int
  XPRINTER_IP :: ustring
  XPRINTER_PORT :: int

text \<open>The argument of one call of \<^verbatim>\<open>printEpson\<close> or \<^verbatim>\<open>printXprinterThaiCP874\<close>.\<close>

record print_call =
  p_target :: target
  p_host :: ustring
  p_port :: int
  p_title :: jsval
  p_lines :: "jsval list"

text \<open>
  What the handler cannot decide itself: the clock, and whether each awaited call
  throws (\<open>Some message\<close>) or returns.
\<close>

record env =
  now :: nat
  save_error :: "ustring option"
  categories_db :: "ustring + category_doc list"
  print_error :: "print_call \<Rightarrow> ustring option"
  update_error :: "target \<Rightarrow> ustring option"

datatype response = ErrorJson nat ustring | OkJson ustring

datatype effect =
  SaveOrder order_doc
| EmitNewOrder order_doc
| FindCategories
| Print print_call
| SetPrintedAt ustring
| ConsoleError ustring ustring
| Respond response

text \<open>\<^verbatim>\<open>Date.now().toString().slice(-6)\<close>: the last six decimal digits of the clock.\<close>

definition make_orderId :: "nat \<Rightarrow> ustring" where
  "make_orderId t = (let s = dec_nat t in drop (length s - 6) s)"

text \<open>The mapping of the request items into the order document.\<close>

definition order_item :: "item \<Rightarrow> item" where
  "order_item it = \<lparr> name = name it, qty = js_or (qty it) (JNum 1),
     category = js_or (category it) (JStr []), price = js_or (price it) (JNum 0) \<rparr>"

definition new_order :: "ustring \<Rightarrow> jsval \<Rightarrow> item list \<Rightarrow> jsval \<Rightarrow> order_doc" where
  "new_order oid tbl its nt = \<lparr> orderId = oid, o_table = js_or tbl (JStr []),
     o_items = map order_item its, o_note = js_or nt (JStr []), status = u ''NEW'' \<rparr>"

text \<open>
  \<^verbatim>\<open>categories.find(c => c.name === item.category) || { printer: 'EPSON' }\<close> and the
  choice of the target.
\<close>

definition resolve_target :: "category_doc list \<Rightarrow> item \<Rightarrow> target" where
  "resolve_target categories it =
     (let cat_printer =
        (case List.find (\<lambda>c. JStr (cat_name c) = category it) categories of
           Some c \<Rightarrow> printer c
         | None \<Rightarrow> u ''EPSON'')
      in if cat_printer = u ''XPRINTER'' then XPRINTER else EPSON)"

text \<open>
  The routing loop. \<^verbatim>\<open>byPrinter\<close> is a dictionary with the two keys \<^verbatim>\<open>EPSON\<close> and
  \<^verbatim>\<open>XPRINTER\<close>; \<^verbatim>\<open>push\<close> appends.
\<close>

fun route_loop ::
  "category_doc list \<Rightarrow> (target \<Rightarrow> item list) \<Rightarrow> item list \<Rightarrow> (target \<Rightarrow> item list)" where
  "route_loop categories byPrinter [] = byPrinter"
| "route_loop categories byPrinter (it # rest) =
     (let tgt = resolve_target categories it
      in route_loop categories (byPrinter(tgt := byPrinter tgt @ [it])) rest)"

definition route :: "category_doc list \<Rightarrow> item list \<Rightarrow> (target \<Rightarrow> item list)" where
  "route categories its = route_loop categories (\<lambda>_. []) its"

text \<open>The two Thai prefixes of \<^verbatim>\<open>makeLines\<close>: the table label and the note label.\<close>

definition table_label :: ustring where
  "table_label = [0x0E42, 0x0E15, 0x0E4A, 0x0E30, 0x20]"

definition note_label :: ustring where
  "note_label = [0x0E2B, 0x0E21, 0x0E32, 0x0E22, 0x0E40, 0x0E2B, 0x0E15, 0x0E38, 0x3A, 0x20]"

text \<open>The quantity printed for an item: \<^verbatim>\<open>x.qty || 1\<close>.\<close>

definition receipt_qty :: "item \<Rightarrow> jsval" where
  "receipt_qty x = js_or (qty x) (JNum 1)"

definition item_line :: "item \<Rightarrow> jsval" where
  "item_line x = JStr (u ''x'' @ to_str (receipt_qty x) @ u ''  '' @ to_str (name x))"

definition makeLines :: "jsval \<Rightarrow> jsval \<Rightarrow> item list \<Rightarrow> jsval list" where
  "makeLines tbl nt sub_items =
     [JStr (table_label @ to_str (js_or tbl (JStr (u ''-''))))]
     @ map item_line sub_items
     @ (if truthy nt then [JStr (note_label @ to_str nt)] else [])"

definition order_title :: "ustring \<Rightarrow> jsval" where
  "order_title oid = JStr (u ''ORDER #'' @ oid)"

definition epson_call :: "config \<Rightarrow> ustring \<Rightarrow> jsval list \<Rightarrow> print_call" where
  "epson_call cfg oid ls = \<lparr> p_target = EPSON, p_host = EPSON_IP cfg, p_port = EPSON_PORT cfg,
     p_title = order_title oid, p_lines = ls \<rparr>"

definition xprinter_call :: "config \<Rightarrow> ustring \<Rightarrow> jsval list \<Rightarrow> print_call" where
  "xprinter_call cfg oid ls = \<lparr> p_target = XPRINTER, p_host = XPRINTER_IP cfg,
     p_port = XPRINTER_PORT cfg, p_title = order_title oid, p_lines = ls \<rparr>"

text \<open>
  One \<^verbatim>\<open>try { await print(...); await Order.findOneAndUpdate(...) } catch (e) { console.error(...) }\<close>
  block: a failure of either call is logged and goes no further.
\<close>

definition print_block :: "env \<Rightarrow> ustring \<Rightarrow> ustring \<Rightarrow> print_call \<Rightarrow> effect list" where
  "print_block e tag oid call =
     Print call #
       (case print_error e call of
          Some msg \<Rightarrow> [ConsoleError tag msg]
        | None \<Rightarrow> SetPrintedAt oid #
            (case update_error e (p_target call) of
               Some msg \<Rightarrow> [ConsoleError tag msg]
             | None \<Rightarrow> []))"

definition print_stage ::
  "env \<Rightarrow> config \<Rightarrow> ustring \<Rightarrow> jsval \<Rightarrow> jsval \<Rightarrow> (target \<Rightarrow> item list) \<Rightarrow> effect list" where
  "print_stage e cfg oid tbl nt byPrinter =
     (if byPrinter EPSON \<noteq> []
      then print_block e (u ''Print EPSON error:'') oid
             (epson_call cfg oid (makeLines tbl nt (byPrinter EPSON)))
      else [])
     @ (if byPrinter XPRINTER \<noteq> []
        then print_block e (u ''Print XPRINTER error:'') oid
               (xprinter_call cfg oid (makeLines tbl nt (byPrinter XPRINTER)))
        else [])"

text \<open>The message of the 400 response.\<close>

definition need_items_message :: ustring where
  "need_items_message =
     [0x0E15, 0x0E49, 0x0E2D, 0x0E07, 0x0E21, 0x0E35, 0x0E23, 0x0E32, 0x0E22, 0x0E01, 0x0E32,
      0x0E23, 0x0E2D, 0x0E32, 0x0E2B, 0x0E32, 0x0E23, 0x0E2D, 0x0E22, 0x0E48, 0x0E32, 0x0E07,
      0x0E19, 0x0E49, 0x0E2D, 0x0E22, 0x0020, 0x0031, 0x0020, 0x0E23, 0x0E32, 0x0E22, 0x0E01,
      0x0E32, 0x0E23]"

text \<open>
  The handler, as the list of its effects in order. An exception outside the two print
  blocks reaches the outer \<^verbatim>\<open>catch\<close>, which logs it and answers 500.
\<close>

definition orderHandler :: "env \<Rightarrow> config \<Rightarrow> body \<Rightarrow> effect list" where
  "orderHandler e cfg req =
     (case b_items req of
        None \<Rightarrow> [Respond (ErrorJson 400 need_items_message)]
      | Some its \<Rightarrow>
          if its = [] then [Respond (ErrorJson 400 need_items_message)]
          else
            let oid = make_orderId (now e);
                order = new_order oid (b_table req) its (b_note req)
            in SaveOrder order #
              (case save_error e of
                 Some msg \<Rightarrow>
                   [ConsoleError (u ''Order creation error:'') msg, Respond (ErrorJson 500 msg)]
               | None \<Rightarrow>
                   EmitNewOrder order # FindCategories #
                     (case categories_db e of
                        Inl msg \<Rightarrow>
                          [ConsoleError (u ''Order creation error:'') msg,
                           Respond (ErrorJson 500 msg)]
                      | Inr db \<Rightarrow>
                          let categories = filter active db;
                              byPrinter = route categories its
                          in print_stage e cfg oid (b_table req) (b_note req) byPrinter
                             @ [Respond (OkJson oid)])))"

text \<open>
  The print jobs of an order: the non-empty groups with their targets, in the order in
  which the handler prints them.
\<close>

definition jobs :: "(target \<Rightarrow> item list) \<Rightarrow> (target \<times> item list) list" where
  "jobs byPrinter =
     filter (\<lambda>(tgt, sub_items). sub_items \<noteq> []) [(EPSON, byPrinter EPSON), (XPRINTER, byPrinter XPRINTER)]"

definition job_call :: "config \<Rightarrow> ustring \<Rightarrow> jsval \<Rightarrow> jsval \<Rightarrow> target \<times> item list \<Rightarrow> print_call" where
  "job_call cfg oid tbl nt job =
     (case fst job of
        EPSON \<Rightarrow> epson_call cfg oid (makeLines tbl nt (snd job))
      | XPRINTER \<Rightarrow> xprinter_call cfg oid (makeLines tbl nt (snd job)))"

text \<open>The print calls among the effects of a run.\<close>

fun prints :: "effect list \<Rightarrow> print_call list" where
  "prints [] = []"
| "prints (Print c # es) = c # prints es"
| "prints (_ # es) = prints es"

text \<open>The bytes a print call sends (services/escposPrinter.js).\<close>

definition call_payload :: "codec \<Rightarrow> int \<Rightarrow> print_call \<Rightarrow> buffer" where
  "call_payload iconv_encode XPR_CODEPAGE c =
     (case p_target c of
        EPSON \<Rightarrow> printEpson_payload iconv_encode (p_title c) (p_lines c)
      | XPRINTER \<Rightarrow>
          printXprinterThaiCP874_payload iconv_encode XPR_CODEPAGE (p_title c) (p_lines c))"

definition order_payloads ::
  "codec \<Rightarrow> int \<Rightarrow> env \<Rightarrow> config \<Rightarrow> body \<Rightarrow> (target \<times> buffer) list" where
  "order_payloads iconv_encode XPR_CODEPAGE e cfg req =
     map (\<lambda>c. (p_target c, call_payload iconv_encode XPR_CODEPAGE c))
       (prints (orderHandler e cfg req))"

text \<open>The responses and the saved orders among the effects of a run.\<close>

fun responses :: "effect list \<Rightarrow> response list" where
  "responses [] = []"
| "responses (Respond r # es) = r # responses es"
| "responses (_ # es) = responses es"

fun saves :: "effect list \<Rightarrow> order_doc list" where
  "saves [] = []"
| "saves (SaveOrder d # es) = d # saves es"
| "saves (_ # es) = saves es"

section \<open>The socket delivery of the print functions\<close>

text \<open>
  Each print function creates a socket, arms its timers, starts to connect and returns a
  promise; everything else happens in callbacks. The model keeps the state these
  callbacks share and gives every callback as a function on it, taking the time (in ms
  since the call) at which it runs. A timer is held as the time at which it is due.
\<close>

datatype sock_state = Connecting | Connected | Ended | Destroyed

datatype outcome = Resolved | Rejected ustring

record transport =
  sock :: sock_state
  sent :: "buffer option"
  timer :: "nat option"
  idle_timer :: "nat option"
  close_timer :: "nat option"
  promise :: "outcome option"
  settled_at :: "nat option"
  written_at :: "nat option"
  closed_at :: "nat option"

text \<open>\<^verbatim>\<open>resolve\<close> and \<^verbatim>\<open>reject\<close>: only the first of them settles the promise.\<close>

definition settle :: "nat \<Rightarrow> outcome \<Rightarrow> transport \<Rightarrow> transport" where
  "settle t r s = (if promise s = None then s\<lparr>promise := Some r, settled_at := Some t\<rparr> else s)"

definition printer_timeout :: ustring where
  "printer_timeout = u ''Printer timeout''"

subsection \<open>services/escposPrinter.js\<close>

text \<open>
  \<^verbatim>\<open>socket.setTimeout(10000)\<close>, \<^verbatim>\<open>setTimeout(..., 12000)\<close> and \<^verbatim>\<open>socket.connect\<close>: the
  state when the executor of the promise returns.
\<close>

definition escpos_start :: transport where
  "escpos_start = \<lparr> sock = Connecting, sent = None, timer = Some 12000,
     idle_timer = Some 10000, close_timer = None, promise = None, settled_at = None,
     written_at = None, closed_at = None \<rparr>"

text \<open>The callback of \<^verbatim>\<open>timer\<close>: \<^verbatim>\<open>socket.destroy(); reject(new Error('Printer timeout'))\<close>.\<close>

definition escpos_on_timer :: "nat \<Rightarrow> transport \<Rightarrow> transport" where
  "escpos_on_timer t s =
     settle t (Rejected printer_timeout)
       (s\<lparr>sock := Destroyed, timer := None, idle_timer := None, closed_at := Some t\<rparr>)"

text \<open>The connect callback: \<^verbatim>\<open>socket.write(payload, ...)\<close>. Activity restarts the inactivity timer.\<close>

definition escpos_on_connect :: "buffer \<Rightarrow> nat \<Rightarrow> transport \<Rightarrow> transport" where
  "escpos_on_connect payload t s =
     (if sock s = Connecting
      then s\<lparr>sock := Connected, sent := Some payload, idle_timer := Some (t + 10000)\<rparr>
      else s)"

text \<open>
  The write callback:
  \<^verbatim>\<open>clearTimeout(timer); setTimeout(() => { socket.end(); resolve({ ok: true }); }, 200)\<close>.
\<close>

definition escpos_on_written :: "nat \<Rightarrow> transport \<Rightarrow> transport" where
  "escpos_on_written t s =
     (if sock s = Connected \<and> sent s \<noteq> None \<and> written_at s = None
      then s\<lparr>timer := None, close_timer := Some (t + 200), written_at := Some t,
             idle_timer := Some (t + 10000)\<rparr>
      else s)"

text \<open>The callback of the 200 ms timer: \<^verbatim>\<open>socket.end(); resolve({ ok: true })\<close>.\<close>

definition escpos_on_close_timer :: "nat \<Rightarrow> transport \<Rightarrow> transport" where
  "escpos_on_close_timer t s =
     settle t Resolved
       (if sock s = Destroyed then s\<lparr>close_timer := None\<rparr>
        else s\<lparr>sock := Ended, close_timer := None, closed_at := Some t\<rparr>)"

text \<open>
  The \<^verbatim>\<open>'error'\<close> listener: \<^verbatim>\<open>clearTimeout(timer); reject(err)\<close>. A socket that reports
  an error is destroyed by the runtime.
\<close>

definition escpos_on_error :: "ustring \<Rightarrow> nat \<Rightarrow> transport \<Rightarrow> transport" where
  "escpos_on_error msg t s =
     (if sock s = Destroyed then s
      else settle t (Rejected msg)
        (s\<lparr>sock := Destroyed, timer := None, idle_timer := None,
           closed_at := (if closed_at s = None then Some t else closed_at s)\<rparr>))"

text \<open>
  The \<^verbatim>\<open>'timeout'\<close> listener: \<^verbatim>\<open>clearTimeout(timer); reject(new Error('Printer timeout'))\<close>.
  It leaves the socket as it is.
\<close>

definition escpos_on_timeout :: "nat \<Rightarrow> transport \<Rightarrow> transport" where
  "escpos_on_timeout t s =
     settle t (Rejected printer_timeout) (s\<lparr>timer := None, idle_timer := None\<rparr>)"

subsection \<open>The second printer module\<close>

text \<open>\<^verbatim>\<open>setTimeout(..., 4000)\<close> and \<^verbatim>\<open>socket.connect\<close>; no socket timeout is set.\<close>

definition alt_start :: transport where
  "alt_start = \<lparr> sock = Connecting, sent = None, timer = Some 4000,
     idle_timer = None, close_timer = None, promise = None, settled_at = None,
     written_at = None, closed_at = None \<rparr>"

definition alt_on_timer :: "nat \<Rightarrow> transport \<Rightarrow> transport" where
  "alt_on_timer t s =
     settle t (Rejected printer_timeout) (s\<lparr>sock := Destroyed, timer := None, closed_at := Some t\<rparr>)"

definition alt_on_connect :: "buffer \<Rightarrow> nat \<Rightarrow> transport \<Rightarrow> transport" where
  "alt_on_connect payload t s =
     (if sock s = Connecting then s\<lparr>sock := Connected, sent := Some payload\<rparr> else s)"

text \<open>The write callback: \<^verbatim>\<open>clearTimeout(timer); socket.end(); resolve({ ok: true })\<close>.\<close>

definition alt_on_written :: "nat \<Rightarrow> transport \<Rightarrow> transport" where
  "alt_on_written t s =
     (if sock s = Connected \<and> sent s \<noteq> None \<and> written_at s = None
      then settle t Resolved
        (s\<lparr>timer := None, written_at := Some t, sock := Ended, closed_at := Some t\<rparr>)
      else s)"

definition alt_on_error :: "ustring \<Rightarrow> nat \<Rightarrow> transport \<Rightarrow> transport" where
  "alt_on_error msg t s =
     (if sock s = Destroyed then s
      else settle t (Rejected msg)
        (s\<lparr>sock := Destroyed, timer := None,
           closed_at := (if closed_at s = None then Some t else closed_at s)\<rparr>))"

subsection \<open>The event loop\<close>

text \<open>
  What the network does is a list of events, each with the delay since the one before.
  The loop runs the callbacks of the timers that are due, earliest first, before the
  callback of the next event, and the remaining timers at the end. A print function is
  given by its three callbacks for the events and its callbacks for the timers.
\<close>

datatype net_event = NetConnected | NetWritten | NetError ustring

datatype timer_id = Deadline | Inactivity | CloseDelay

definition escpos_event :: "buffer \<Rightarrow> net_event \<Rightarrow> nat \<Rightarrow> transport \<Rightarrow> transport" where
  "escpos_event payload ev t s =
     (case ev of
        NetConnected \<Rightarrow> escpos_on_connect payload t s
      | NetWritten \<Rightarrow> escpos_on_written t s
      | NetError msg \<Rightarrow> escpos_on_error msg t s)"

definition escpos_fire :: "timer_id \<Rightarrow> nat \<Rightarrow> transport \<Rightarrow> transport" where
  "escpos_fire k t s =
     (case k of
        Deadline \<Rightarrow> escpos_on_timer t s
      | Inactivity \<Rightarrow> escpos_on_timeout t s
      | CloseDelay \<Rightarrow> escpos_on_close_timer t s)"

definition alt_event :: "buffer \<Rightarrow> net_event \<Rightarrow> nat \<Rightarrow> transport \<Rightarrow> transport" where
  "alt_event payload ev t s =
     (case ev of
        NetConnected \<Rightarrow> alt_on_connect payload t s
      | NetWritten \<Rightarrow> alt_on_written t s
      | NetError msg \<Rightarrow> alt_on_error msg t s)"

text \<open>The second module has the deadline timer only.\<close>

definition alt_fire :: "timer_id \<Rightarrow> nat \<Rightarrow> transport \<Rightarrow> transport" where
  "alt_fire k t s =
     (case k of
        Deadline \<Rightarrow> alt_on_timer t s
      | Inactivity \<Rightarrow> s\<lparr>idle_timer := None\<rparr>
      | CloseDelay \<Rightarrow> s\<lparr>close_timer := None\<rparr>)"

text \<open>The armed timer that is due first (of two due together, the deadline goes first).\<close>

definition earlier :: "(nat \<times> timer_id) option \<Rightarrow> (nat \<times> timer_id) option \<Rightarrow> (nat \<times> timer_id) option" where
  "earlier a b =
     (case a of None \<Rightarrow> b
      | Some (x, i) \<Rightarrow> (case b of None \<Rightarrow> a | Some (y, j) \<Rightarrow> if x \<le> y then a else b))"

definition next_timer :: "transport \<Rightarrow> (nat \<times> timer_id) option" where
  "next_timer s =
     earlier (map_option (\<lambda>d. (d, Deadline)) (timer s))
       (earlier (map_option (\<lambda>d. (d, Inactivity)) (idle_timer s))
          (map_option (\<lambda>d. (d, CloseDelay)) (close_timer s)))"

text \<open>Run the next timer if it is due by \<open>limit\<close> (\<open>None\<close>: no limit).\<close>

definition fire_next ::
  "(timer_id \<Rightarrow> nat \<Rightarrow> transport \<Rightarrow> transport) \<Rightarrow> nat option \<Rightarrow> transport \<Rightarrow> transport" where
  "fire_next fire limit s =
     (case next_timer s of
        None \<Rightarrow> s
      | Some (d, k) \<Rightarrow>
          (case limit of
             None \<Rightarrow> fire k d s
           | Some l \<Rightarrow> if d \<le> l then fire k d s else s))"

text \<open>
  There are three timers and no timer callback arms a timer, so three rounds run all that
  are due.
\<close>

definition fire_due ::
  "(timer_id \<Rightarrow> nat \<Rightarrow> transport \<Rightarrow> transport) \<Rightarrow> nat option \<Rightarrow> transport \<Rightarrow> transport" where
  "fire_due fire limit s = fire_next fire limit (fire_next fire limit (fire_next fire limit s))"

fun run ::
  "(net_event \<Rightarrow> nat \<Rightarrow> transport \<Rightarrow> transport) \<Rightarrow> (timer_id \<Rightarrow> nat \<Rightarrow> transport \<Rightarrow> transport)
   \<Rightarrow> (nat \<times> net_event) list \<Rightarrow> nat \<Rightarrow> transport \<Rightarrow> transport" where
  "run event fire [] t s = fire_due fire None s"
| "run event fire ((delay, ev) # rest) t s =
     run event fire rest (t + delay) (event ev (t + delay) (fire_due fire (Some (t + delay)) s))"

text \<open>A call of a print function of services/escposPrinter.js, and of the second module.\<close>

definition escpos_print :: "buffer \<Rightarrow> (nat \<times> net_event) list \<Rightarrow> transport" where
  "escpos_print payload network = run (escpos_event payload) escpos_fire network 0 escpos_start"

definition alt_print :: "buffer \<Rightarrow> (nat \<times> net_event) list \<Rightarrow> transport" where
  "alt_print payload network = run (alt_event payload) alt_fire network 0 alt_start"

text \<open>The call \<^verbatim>\<open>printEpson({ host, port, title, lines })\<close> of services/escposPrinter.js.\<close>

definition printEpson :: "codec \<Rightarrow> print_call \<Rightarrow> (nat \<times> net_event) list \<Rightarrow> transport" where
  "printEpson iconv_encode c network =
     escpos_print (printEpson_payload iconv_encode (p_title c) (p_lines c)) network"

definition printXprinterThaiCP874 ::
  "codec \<Rightarrow> int \<Rightarrow> print_call \<Rightarrow> (nat \<times> net_event) list \<Rightarrow> transport" where
  "printXprinterThaiCP874 iconv_encode XPR_CODEPAGE c network =
     escpos_print (printXprinterThaiCP874_payload iconv_encode XPR_CODEPAGE (p_title c) (p_lines c))
       network"

text \<open>The same calls in the second module.\<close>

definition printEpson_alt :: "codec \<Rightarrow> print_call \<Rightarrow> (nat \<times> net_event) list \<Rightarrow> transport" where
  "printEpson_alt iconv_encode c network =
     alt_print (printEpson_payload_alt iconv_encode (p_title c) (p_lines c)) network"

definition printXprinterThaiCP874_alt ::
  "codec \<Rightarrow> print_call \<Rightarrow> (nat \<times> net_event) list \<Rightarrow> transport" where
  "printXprinterThaiCP874_alt iconv_encode c network =
     alt_print (printXprinterThaiCP874_payload_alt iconv_encode (p_title c) (p_lines c)) network"

section \<open>A sample order\<close>

text \<open>
  The scenario of the specification: table 5 orders two pork slices (category Meat,
  printed on EPSON) and one squid (category Seafood, printed on XPRINTER).
\<close>

definition ex_pork :: item where
  "ex_pork = \<lparr> name = JStr (u ''Pork Slice''), qty = JNum 2, category = JStr (u ''Meat''),
     price = JUndefined \<rparr>"

definition ex_squid :: item where
  "ex_squid = \<lparr> name = JStr (u ''Squid''), qty = JNum 1, category = JStr (u ''Seafood''),
     price = JUndefined \<rparr>"

definition ex_db :: "category_doc list" where
  "ex_db = [\<lparr> cat_name = u ''Meat'', printer = u ''EPSON'', active = True \<rparr>,
            \<lparr> cat_name = u ''Seafood'', printer = u ''XPRINTER'', active = True \<rparr>]"

definition ex_req :: body where
  "ex_req = \<lparr> b_table = JStr (u ''5''), b_items = Some [ex_pork, ex_squid],
     b_note = JStr (u ''no chili'') \<rparr>"

definition ex_cfg :: config where
  "ex_cfg = \<lparr> EPSON_IP = u ''192.168.1.33'', EPSON_PORT = 9100,
     XPRINTER_IP = u ''192.168.1.23'', XPRINTER_PORT = 9100 \<rparr>"

text \<open>An environment in which every call succeeds, and one in which every print fails.\<close>

definition ex_env :: "nat \<Rightarrow> env" where
  "ex_env t = \<lparr> now = t, save_error = None, categories_db = Inr ex_db,
     print_error = (\<lambda>_. None), update_error = (\<lambda>_. None) \<rparr>"

definition ex_env_fail :: "nat \<Rightarrow> env" where
  "ex_env_fail t = \<lparr> now = t, save_error = None, categories_db = Inr ex_db,
     print_error = (\<lambda>_. Some (u ''Printer timeout'')), update_error = (\<lambda>_. None) \<rparr>"

text \<open>
  The quantity of a receipt line as the specification words it: 1 when the source
  quantity is missing or not positive, the source quantity otherwise.
\<close>

definition spec_quantity :: "jsval \<Rightarrow> int" where
  "spec_quantity q = (case q of JNum n \<Rightarrow> if n \<le> 0 then 1 else n | _ \<Rightarrow> 1)"

text \<open>An item with a negative quantity.\<close>

definition ex_refund :: item where
  "ex_refund = \<lparr> name = JStr (u ''Pork Slice''), qty = JNum (- 2), category = JStr (u ''Meat''),
     price = JUndefined \<rparr>"

text \<open>A stand-in for the codec in examples: it keeps the low byte of every code unit.\<close>

definition ex_codec :: codec where
  "ex_codec t cp = map ucast t"

text \<open>The print call of the sample order for the EPSON printer.\<close>

definition ex_epson_call :: print_call where
  "ex_epson_call =
     epson_call ex_cfg (u ''123456'') (makeLines (JStr (u ''5'')) (JStr (u ''no chili'')) [ex_pork])"

section \<open>Phases of a delivery\<close>

text \<open>
  The states a call of services/escposPrinter.js goes through: before the write has
  completed (the deadline is armed), between the write and the delayed close, resolved,
  and rejected. \<open>waiting\<close> and \<open>refused\<close> are the two states of a call whose connection
  is never accepted.
\<close>

definition phaseA :: "transport \<Rightarrow> bool" where
  "phaseA s \<longleftrightarrow> promise s = None \<and> timer s = Some 12000 \<and> close_timer s = None
     \<and> written_at s = None \<and> closed_at s = None"

definition phaseB :: "transport \<Rightarrow> bool" where
  "phaseB s \<longleftrightarrow> promise s = None \<and> timer s = None \<and> sock s = Connected \<and> closed_at s = None
     \<and> (\<exists>w. w < 12000 \<and> written_at s = Some w \<and> close_timer s = Some (w + 200)
            \<and> idle_timer s = Some (w + 10000))"

definition phaseR :: "transport \<Rightarrow> bool" where
  "phaseR s \<longleftrightarrow> promise s = Some Resolved \<and> timer s = None \<and> close_timer s = None
     \<and> (\<exists>w. w < 12000 \<and> written_at s = Some w \<and> closed_at s = Some (w + 200)
            \<and> settled_at s = Some (w + 200))"

definition phaseF :: "transport \<Rightarrow> bool" where
  "phaseF s \<longleftrightarrow> (\<exists>m ts. promise s = Some (Rejected m) \<and> settled_at s = Some ts \<and> ts < 12200)"

definition inv :: "transport \<Rightarrow> bool" where
  "inv s \<longleftrightarrow> phaseA s \<or> phaseB s \<or> phaseR s \<or> phaseF s"

definition waiting :: "transport \<Rightarrow> bool" where
  "waiting s \<longleftrightarrow> promise s = None \<and> timer s = Some 12000 \<and> idle_timer s = Some 10000
     \<and> close_timer s = None \<and> sock s = Connecting"

definition refused :: "transport \<Rightarrow> bool" where
  "refused s \<longleftrightarrow> (\<exists>m ts. promise s = Some (Rejected m) \<and> settled_at s = Some ts \<and> ts \<le> 10000)"

text \<open>The same for the second module: the deadline armed, settled, and the two states of a
  call that is never accepted.\<close>

definition alt_armed :: "transport \<Rightarrow> bool" where
  "alt_armed s \<longleftrightarrow> promise s = None \<and> timer s = Some 4000 \<and> idle_timer s = None
     \<and> close_timer s = None"

definition alt_done :: "transport \<Rightarrow> bool" where
  "alt_done s \<longleftrightarrow> (\<exists>r ts. promise s = Some r \<and> settled_at s = Some ts \<and> ts \<le> 4000)"

definition alt_waiting :: "transport \<Rightarrow> bool" where
  "alt_waiting s \<longleftrightarrow> alt_armed s \<and> sock s = Connecting"

definition alt_refused :: "transport \<Rightarrow> bool" where
  "alt_refused s \<longleftrightarrow> sock s = Destroyed
     \<and> (\<exists>m ts. promise s = Some (Rejected m) \<and> settled_at s = Some ts \<and> ts \<le> 4000)"

section \<open>Properties of the command sequences\<close>


lemma epsonSetThai_alt_bytes: "epsonSetThai_alt = [0x1B, 0x52, 0x0B, 0x1B, 0x74, 0x15]"
  by (simp add: epsonSetThai_alt_def Buffer_concat_def esc_def)

lemma xprinterSetThaiCP874_bytes:
  "xprinterSetThaiCP874 n =
     [0x1B, 0x40, 0x1C, 0x2E, 0x1B, 0x52, 0x00, 0x1B, 0x74, word_of_int n,
      0x1D, 0x74, word_of_int n, 0x1B, 0x4D, 0x00]"
  by (simp add: xprinterSetThaiCP874_def Buffer_concat_def esc_def)

lemma xprinterSetThaiCP874_alt_bytes:
  "xprinterSetThaiCP874_alt =
     [0x1B, 0x40, 0x1C, 0x2E, 0x1B, 0x52, 0x00, 0x1B, 0x74, 70, 0x1D, 0x74, 70, 0x1B, 0x4D, 0x00]"
  by (simp add: xprinterSetThaiCP874_alt_def Buffer_concat_def esc_def)

lemma cutPaper_bytes: "cutPaper = [0x1D, 0x56, 0x41, 0x10]"
  by (simp add: cutPaper_def esc_def)

lemma cutPaper_alt_bytes: "cutPaper_alt = [0x1D, 0x56, 0x42, 0x00]"
  by (simp add: cutPaper_alt_def esc_def)

lemma divider_dashes: "divider = replicate 30 0x2D @ [0x0A]"
  by (simp add: divider_def u_def numeral_eq_Suc)

lemma push_lines_append:
  "push_lines enc cp chunks lines =
     chunks @ map (\<lambda>l. enc (to_str (nullish l (JStr [])) @ [0x0A]) cp) lines"
  by (induction lines arbitrary: chunks) simp_all

lemma receipt_chunks_concat:
  "Buffer_concat (receipt_chunks enc init cp cut_cmd title lines) =
     spec_compose (\<lambda>t. enc t cp) init cut_cmd (to_str (title_default title))
       (map (\<lambda>l. to_str (nullish l (JStr []))) lines)"
  by (simp add: receipt_chunks_def Buffer_concat_def spec_compose_def push_lines_append
      divider_dashes comp_def Let_def)



text \<open>
  The EPSON builder of the second module sends the two selectors without the reset; its
  XPRINTER builder is the sequence above with the code page fixed to 70.
\<close>

lemma second_module_init_sequences:
  "epsonSetThai_alt = cmd_international charset_thai @ cmd_codepage_esc codepage_tis620
   \<and> xprinterSetThaiCP874_alt = xprinterSetThaiCP874 70"
  by (simp add: epsonSetThai_alt_bytes xprinterSetThaiCP874_bytes xprinterSetThaiCP874_alt_bytes
      cmd_international_def cmd_codepage_esc_def charset_thai_def codepage_tis620_def)

text \<open>
  C3. For every title and every list of lines, each print function sends the
  concatenation of: its init sequence; newline, title, newline, encoded; the divider of
  30 dashes and a newline, encoded; every line followed by a newline, encoded, in
  input order; the divider again; the thank-you line; three newlines; the cut command.
  The payload is never empty.
\<close>

theorem C3_payload_layout:
  "printEpson_payload enc title lines =
     spec_compose (\<lambda>t. enc t (u ''tis-620'')) epsonSetThai cutPaper
       (to_str (title_default title)) (map (\<lambda>l. to_str (nullish l (JStr []))) lines)
   \<and> printXprinterThaiCP874_payload enc n title lines =
     spec_compose (\<lambda>t. enc t (u ''cp874'')) (xprinterSetThaiCP874 n) cutPaper
       (to_str (title_default title)) (map (\<lambda>l. to_str (nullish l (JStr []))) lines)
   \<and> printEpson_payload_alt enc title lines =
     spec_compose (\<lambda>t. enc t (u ''TIS-620'')) epsonSetThai_alt cutPaper_alt
       (to_str (title_default title)) (map (\<lambda>l. to_str (nullish l (JStr []))) lines)
   \<and> printXprinterThaiCP874_payload_alt enc title lines =
     spec_compose (\<lambda>t. enc t (u ''CP874'')) xprinterSetThaiCP874_alt cutPaper_alt
       (to_str (title_default title)) (map (\<lambda>l. to_str (nullish l (JStr []))) lines)
   \<and> printEpson_payload enc title lines \<noteq> []
   \<and> printXprinterThaiCP874_payload enc n title lines \<noteq> []
   \<and> printEpson_payload_alt enc title lines \<noteq> []
   \<and> printXprinterThaiCP874_payload_alt enc title lines \<noteq> []
   \<and> printEpson_payload enc title [] =
     epsonSetThai @ enc ([0x0A] @ to_str (title_default title) @ [0x0A]) (u ''tis-620'')
     @ enc divider (u ''tis-620'') @ enc divider (u ''tis-620'') @ enc thanks (u ''tis-620'')
     @ [0x0A, 0x0A, 0x0A] @ cutPaper"
proof -
  have ne: "spec_compose e i [a, b, c, d] t ls \<noteq> []" for e i a b c d t ls
    by (simp add: spec_compose_def)
  show ?thesis
    unfolding printEpson_payload_def printXprinterThaiCP874_payload_def
      printEpson_payload_alt_def printXprinterThaiCP874_payload_alt_def receipt_chunks_concat
    by (simp add: ne cutPaper_bytes cutPaper_alt_bytes)
      (simp add: spec_compose_def divider_dashes)
qed
section \<open>Properties of the routing\<close>

lemma route_loop_filter:
  "route_loop cats bp its t = bp t @ filter (\<lambda>i. resolve_target cats i = t) its"
  by (induction its arbitrary: bp) (auto simp: Let_def)

lemma route_filter: "route cats its t = filter (\<lambda>i. resolve_target cats i = t) its"
  by (simp add: route_def route_loop_filter)

lemma target_cases: "t = EPSON \<or> t = XPRINTER"
  by (cases t) auto

lemma mset_route:
  "mset (route cats its EPSON) + mset (route cats its XPRINTER) = mset its"
proof -
  have "(\<lambda>i. resolve_target cats i = XPRINTER) = (\<lambda>i. \<not> resolve_target cats i = EPSON)"
    using target_cases by (metis target.distinct(1))
  then show ?thesis
    by (simp add: route_filter)
qed

lemma jobs_cases:
  "jobs bp = (if bp EPSON \<noteq> [] then [(EPSON, bp EPSON)] else [])
           @ (if bp XPRINTER \<noteq> [] then [(XPRINTER, bp XPRINTER)] else [])"
  by (simp add: jobs_def)

lemma mset_jobs: "mset (concat (map snd (jobs bp))) = mset (bp EPSON) + mset (bp XPRINTER)"
  by (simp add: jobs_cases)

lemma prints_append: "prints (xs @ ys) = prints xs @ prints ys"
  by (induction xs rule: prints.induct) simp_all

lemma prints_print_block: "prints (print_block e tag oid c) = [c]"
  by (simp add: print_block_def split: option.splits)

lemma prints_print_stage:
  "prints (print_stage e cfg oid tbl nt bp) = map (job_call cfg oid tbl nt) (jobs bp)"
  by (simp add: print_stage_def prints_append prints_print_block jobs_cases job_call_def)

lemma jobs_route_Nil: "jobs (route cats []) = []"
  by (simp add: jobs_cases route_filter)

lemma prints_orderHandler:
  "prints (orderHandler e cfg req) =
     (case b_items req of None \<Rightarrow> [] | Some its \<Rightarrow>
        (case save_error e of Some m \<Rightarrow> [] | None \<Rightarrow>
          (case categories_db e of Inl m \<Rightarrow> [] | Inr db \<Rightarrow>
             map (job_call cfg (make_orderId (now e)) (b_table req) (b_note req))
               (jobs (route (filter active db) its)))))"
  by (simp add: orderHandler_def Let_def prints_append prints_print_stage jobs_route_Nil
      split: option.splits sum.splits)

text \<open>
  C1. For every order and every category collection: the items of all print jobs
  together are the items of the order, each once; every job is non-empty, holds its
  items in their original order, and holds exactly the items that resolve to its
  target; no two jobs have the same target; and the print calls of the handler are the
  calls of these jobs.
\<close>

theorem C1_routing_partition:
  "mset (concat (map snd (jobs (route cats its)))) = mset its
   \<and> (\<forall>job \<in> set (jobs (route cats its)).
        snd job \<noteq> [] \<and> subseq (snd job) its
        \<and> snd job = filter (\<lambda>i. resolve_target cats i = fst job) its)
   \<and> distinct (map fst (jobs (route cats its)))
   \<and> sum_list (map (\<lambda>job. length (snd job)) (jobs (route cats its))) = length its
   \<and> (b_items req = Some its \<and> save_error e = None \<and> categories_db e = Inr db \<longrightarrow>
        prints (orderHandler e cfg req) =
          map (job_call cfg (make_orderId (now e)) (b_table req) (b_note req))
            (jobs (route (filter active db) its)))"
proof -
  have a: "mset (concat (map snd (jobs (route cats its)))) = mset its"
    by (simp add: mset_jobs mset_route)
  have b: "\<forall>job \<in> set (jobs (route cats its)).
        snd job \<noteq> [] \<and> subseq (snd job) its
        \<and> snd job = filter (\<lambda>i. resolve_target cats i = fst job) its"
    by (auto simp: jobs_cases route_filter split: if_splits)
  have c: "distinct (map fst (jobs (route cats its)))"
    by (simp add: jobs_cases)
  have "size (mset (concat (map snd (jobs (route cats its))))) = size (mset its)"
    by (simp only: a)
  then have d: "sum_list (map (\<lambda>job. length (snd job)) (jobs (route cats its))) = length its"
    by (simp add: length_concat comp_def)
  have f: "b_items req = Some its \<and> save_error e = None \<and> categories_db e = Inr db \<longrightarrow>
        prints (orderHandler e cfg req) =
          map (job_call cfg (make_orderId (now e)) (b_table req) (b_note req))
            (jobs (route (filter active db) its))"
    by (simp add: prints_orderHandler)
  from a b c d f show ?thesis by blast
qed

lemma ex_route:
  "jobs (route (filter active ex_db) [ex_pork, ex_squid]) = [(EPSON, [ex_pork]), (XPRINTER, [ex_squid])]"
  by (simp add: jobs_cases route_filter resolve_target_def ex_db_def ex_pork_def ex_squid_def u_def)

theorem C1_routing_partition_witness:
  "b_items ex_req = Some [ex_pork, ex_squid] \<and> save_error (ex_env 1700000123456) = None
   \<and> categories_db (ex_env 1700000123456) = Inr ex_db
   \<and> jobs (route (filter active ex_db) [ex_pork, ex_squid]) =
       [(EPSON, [ex_pork]), (XPRINTER, [ex_squid])]
   \<and> mset (concat (map snd (jobs (route (filter active ex_db) [ex_pork, ex_squid])))) =
       mset [ex_pork, ex_squid]
   \<and> prints (orderHandler (ex_env 1700000123456) ex_cfg ex_req) =
       map (job_call ex_cfg (make_orderId 1700000123456) (JStr (u ''5'')) (JStr (u ''no chili'')))
         [(EPSON, [ex_pork]), (XPRINTER, [ex_squid])]"
  using C1_routing_partition [of "filter active ex_db" "[ex_pork, ex_squid]" ex_req
      "ex_env 1700000123456" ex_db ex_cfg]
  by (simp add: ex_route ex_req_def ex_env_def)

lemma length_jobs: "length (jobs bp) \<le> 2"
  by (simp add: jobs_cases)

lemma length_prints_orderHandler: "length (prints (orderHandler e cfg req)) \<le> 2"
  by (simp add: prints_orderHandler length_jobs split: option.splits sum.splits)

lemma resolve_absent:
  "List.find (\<lambda>c. JStr (cat_name c) = category it) cats = None \<Longrightarrow> resolve_target cats it = EPSON"
  by (simp add: resolve_target_def u_def)

lemma resolve_other:
  "List.find (\<lambda>c. JStr (cat_name c) = category it) cats = Some c \<Longrightarrow> printer c \<noteq> u ''XPRINTER''
   \<Longrightarrow> resolve_target cats it = EPSON"
  by (simp add: resolve_target_def)

lemma resolve_xprinter:
  "List.find (\<lambda>c. JStr (cat_name c) = category it) cats = Some c \<Longrightarrow> printer c = u ''XPRINTER''
   \<Longrightarrow> resolve_target cats it = XPRINTER"
  by (simp add: resolve_target_def)

text \<open>
  C10. Routing forms two groups only, EPSON and XPRINTER, so an order never has more
  than two print jobs and the handler never makes more than two print calls. An item
  whose category matches no category of the collection, or whose matching category has
  a printer field other than \<^verbatim>\<open>XPRINTER\<close>, resolves to EPSON and is in the EPSON
  group, not in the XPRINTER group.
\<close>

theorem C10_two_groups:
  "length (jobs (route cats its)) \<le> 2
   \<and> length (prints (orderHandler e cfg req)) \<le> 2
   \<and> (\<forall>it \<in> set its.
        (List.find (\<lambda>c. JStr (cat_name c) = category it) cats = None
         \<or> (\<exists>c. List.find (\<lambda>c. JStr (cat_name c) = category it) cats = Some c
                \<and> printer c \<noteq> u ''XPRINTER''))
        \<longrightarrow> resolve_target cats it = EPSON
            \<and> it \<in> set (route cats its EPSON) \<and> it \<notin> set (route cats its XPRINTER))
   \<and> (\<forall>it \<in> set its.
        (\<forall>c \<in> set cats. JStr (cat_name c) \<noteq> category it) \<longrightarrow> it \<in> set (route cats its EPSON))"
proof -
  have a: "resolve_target cats it = EPSON
            \<and> it \<in> set (route cats its EPSON) \<and> it \<notin> set (route cats its XPRINTER)"
    if "it \<in> set its"
      and "List.find (\<lambda>c. JStr (cat_name c) = category it) cats = None
         \<or> (\<exists>c. List.find (\<lambda>c. JStr (cat_name c) = category it) cats = Some c
                \<and> printer c \<noteq> u ''XPRINTER'')" for it
  proof -
    from that(2) have "resolve_target cats it = EPSON"
      using resolve_absent resolve_other by blast
    with that(1) show ?thesis by (simp add: route_filter)
  qed
  have b: "it \<in> set (route cats its EPSON)"
    if "it \<in> set its" and "\<forall>c \<in> set cats. JStr (cat_name c) \<noteq> category it" for it
  proof -
    from that(2) have "List.find (\<lambda>c. JStr (cat_name c) = category it) cats = None"
      by (simp add: find_None_iff)
    with a that(1) show ?thesis by blast
  qed
  from a b show ?thesis
    using length_jobs length_prints_orderHandler by blast
qed

lemma ex_resolve: "resolve_target ex_db ex_pork = EPSON \<and> resolve_target ex_db ex_squid = XPRINTER"
  by (simp add: resolve_target_def ex_db_def ex_pork_def ex_squid_def u_def)

theorem C10_two_groups_witness:
  "ex_pork \<in> set [ex_pork, ex_squid]
   \<and> List.find (\<lambda>c. JStr (cat_name c) = category ex_pork) ex_db =
       Some \<lparr> cat_name = u ''Meat'', printer = u ''EPSON'', active = True \<rparr>
   \<and> u ''EPSON'' \<noteq> u ''XPRINTER''
   \<and> resolve_target ex_db ex_pork = EPSON
   \<and> ex_pork \<in> set (route ex_db [ex_pork, ex_squid] EPSON)
   \<and> ex_pork \<notin> set (route ex_db [ex_pork, ex_squid] XPRINTER)
   \<and> length (jobs (route ex_db [ex_pork, ex_squid])) = 2"
  using C10_two_groups [of ex_db "[ex_pork, ex_squid]" "ex_env 0" ex_cfg ex_req]
  by (simp add: route_filter ex_resolve jobs_cases)
    (simp add: ex_db_def ex_pork_def ex_squid_def u_def)

section \<open>Properties of the receipt lines\<close>

text \<open>
  C7, as stated, fails for a negative quantity: \<^verbatim>\<open>x.qty || 1\<close> keeps \<open>-2\<close>, and the
  line reads \<^verbatim>\<open>x-2  Pork Slice\<close>.
\<close>

theorem C7_negative_quantity_counterexample:
  "receipt_qty ex_refund = JNum (- 2)
   \<and> receipt_qty ex_refund \<noteq> JNum (spec_quantity (qty ex_refund))
   \<and> \<not> (1 \<le> (- 2 :: int))
   \<and> item_line ex_refund = JStr (u ''x-2  Pork Slice'')"
  by (simp add: receipt_qty_def js_or_def ex_refund_def spec_quantity_def item_line_def
      dec_int_def dec_nat.simps u_def)

text \<open>
  C7, amended. The printed quantity is the source quantity when that is truthy and 1
  otherwise: 1 when the source quantity is missing, null or zero, and the source
  quantity itself when that is a non-zero number, negative or not. For a
  non-negative number it is the quantity of the specification and at least 1. The order
  document stores the same quantity.
\<close>

theorem C7_quantity_default:
  "(truthy (qty x) \<longrightarrow> receipt_qty x = qty x)
   \<and> (\<not> truthy (qty x) \<longrightarrow> receipt_qty x = JNum 1)
   \<and> ((qty x = JUndefined \<or> qty x = JNull \<or> qty x = JNum 0) \<longrightarrow> receipt_qty x = JNum 1)
   \<and> (\<forall>n. qty x = JNum n \<and> n \<noteq> 0 \<longrightarrow> receipt_qty x = JNum n)
   \<and> (\<forall>n. qty x = JNum n \<and> 0 \<le> n \<longrightarrow>
         receipt_qty x = JNum (spec_quantity (qty x)) \<and> 1 \<le> spec_quantity (qty x))
   \<and> qty (order_item x) = receipt_qty x"
  by (auto simp: receipt_qty_def js_or_def spec_quantity_def order_item_def)

theorem C7_quantity_default_witness:
  "receipt_qty (ex_pork\<lparr>qty := JUndefined\<rparr>) = JNum 1
   \<and> receipt_qty (ex_pork\<lparr>qty := JNum 0\<rparr>) = JNum 1
   \<and> receipt_qty ex_pork = JNum 2
   \<and> qty (order_item ex_pork) = JNum 2"
  using C7_quantity_default [of "ex_pork\<lparr>qty := JUndefined\<rparr>"]
    C7_quantity_default [of "ex_pork\<lparr>qty := JNum 0\<rparr>"]
    C7_quantity_default [of ex_pork]
  by (simp add: ex_pork_def)

lemma p_lines_job_call: "p_lines (job_call cfg oid tbl nt job) = makeLines tbl nt (snd job)"
  by (simp add: job_call_def epson_call_def xprinter_call_def split: target.splits)

lemma makeLines_note:
  "truthy nt \<Longrightarrow> last (makeLines tbl nt g) = JStr (note_label @ to_str nt)"
  by (simp add: makeLines_def)

lemma makeLines_no_note:
  "\<not> truthy nt \<Longrightarrow> JStr (note_label @ s) \<notin> set (makeLines tbl nt g)"
  by (auto simp: makeLines_def item_line_def table_label_def note_label_def u_def)

lemma makeLines_length:
  "length (makeLines tbl nt g) = 1 + length g + (if truthy nt then 1 else 0)"
  by (simp add: makeLines_def)

text \<open>
  C8. In every print call of an order: when the note is truthy (a non-empty string in
  particular), the last line is the note label followed by the note; when it is not
  (missing, null or empty), no line starts with the note label.
\<close>

theorem C8_note_on_every_job:
  "\<forall>c \<in> set (prints (orderHandler e cfg req)).
     (truthy (b_note req) \<longrightarrow>
        last (p_lines c) = JStr (note_label @ to_str (b_note req))
        \<and> JStr (note_label @ to_str (b_note req)) \<in> set (p_lines c))
     \<and> (\<forall>s. s \<noteq> [] \<and> b_note req = JStr s \<longrightarrow> last (p_lines c) = JStr (note_label @ s))
     \<and> (\<not> truthy (b_note req) \<longrightarrow> (\<forall>s. JStr (note_label @ s) \<notin> set (p_lines c)))"
proof
  fix c assume "c \<in> set (prints (orderHandler e cfg req))"
  then obtain job where c: "c = job_call cfg (make_orderId (now e)) (b_table req) (b_note req) job"
    by (auto simp: prints_orderHandler split: option.splits sum.splits)
  have ne: "makeLines tbl nt g \<noteq> []" for tbl nt g
    by (simp add: makeLines_def)
  have 1: "truthy (b_note req) \<longrightarrow>
        last (p_lines c) = JStr (note_label @ to_str (b_note req))
        \<and> JStr (note_label @ to_str (b_note req)) \<in> set (p_lines c)"
    using ne last_in_set by (metis c p_lines_job_call makeLines_note)
  have 2: "\<forall>s. s \<noteq> [] \<and> b_note req = JStr s \<longrightarrow> last (p_lines c) = JStr (note_label @ s)"
    by (simp add: c p_lines_job_call makeLines_note)
  have 3: "\<not> truthy (b_note req) \<longrightarrow> (\<forall>s. JStr (note_label @ s) \<notin> set (p_lines c))"
    by (simp add: c p_lines_job_call makeLines_no_note)
  from 1 2 3 show "(truthy (b_note req) \<longrightarrow>
        last (p_lines c) = JStr (note_label @ to_str (b_note req))
        \<and> JStr (note_label @ to_str (b_note req)) \<in> set (p_lines c))
     \<and> (\<forall>s. s \<noteq> [] \<and> b_note req = JStr s \<longrightarrow> last (p_lines c) = JStr (note_label @ s))
     \<and> (\<not> truthy (b_note req) \<longrightarrow> (\<forall>s. JStr (note_label @ s) \<notin> set (p_lines c)))"
    by blast
qed

lemma ex_prints:
  "prints (orderHandler (ex_env t) ex_cfg ex_req) =
     [epson_call ex_cfg (make_orderId t) (makeLines (JStr (u ''5'')) (JStr (u ''no chili'')) [ex_pork]),
      xprinter_call ex_cfg (make_orderId t) (makeLines (JStr (u ''5'')) (JStr (u ''no chili'')) [ex_squid])]"
  by (simp add: prints_orderHandler ex_req_def ex_env_def ex_route job_call_def)

theorem C8_note_on_every_job_witness:
  "length (prints (orderHandler (ex_env 1700000123456) ex_cfg ex_req)) = 2
   \<and> truthy (b_note ex_req)
   \<and> last (p_lines (prints (orderHandler (ex_env 1700000123456) ex_cfg ex_req) ! 0)) =
       JStr (note_label @ u ''no chili'')
   \<and> last (p_lines (prints (orderHandler (ex_env 1700000123456) ex_cfg ex_req) ! 1)) =
       JStr (note_label @ u ''no chili'')
   \<and> \<not> truthy (b_note (ex_req\<lparr>b_note := JUndefined\<rparr>))
   \<and> JStr (note_label @ u ''no chili'') \<notin>
       set (p_lines (prints (orderHandler (ex_env 1700000123456) ex_cfg
         (ex_req\<lparr>b_note := JUndefined\<rparr>)) ! 0))"
proof -
  have a: "prints (orderHandler (ex_env 1700000123456) ex_cfg (ex_req\<lparr>b_note := JUndefined\<rparr>)) ! 0
      \<in> set (prints (orderHandler (ex_env 1700000123456) ex_cfg (ex_req\<lparr>b_note := JUndefined\<rparr>)))"
    by (simp add: prints_orderHandler ex_req_def ex_env_def ex_route)
  have b: "\<not> truthy (b_note (ex_req\<lparr>b_note := JUndefined\<rparr>))"
    by simp
  have c: "JStr (note_label @ u ''no chili'') \<notin>
       set (p_lines (prints (orderHandler (ex_env 1700000123456) ex_cfg
         (ex_req\<lparr>b_note := JUndefined\<rparr>)) ! 0))"
    using C8_note_on_every_job [of "ex_env 1700000123456" ex_cfg "ex_req\<lparr>b_note := JUndefined\<rparr>"]
      a b by blast
  have d: "truthy (b_note ex_req)"
    by (simp add: ex_req_def u_def)
  have e: "length (prints (orderHandler (ex_env 1700000123456) ex_cfg ex_req)) = 2"
    by (simp add: ex_prints)
  have f: "\<forall>i < 2. last (p_lines (prints (orderHandler (ex_env 1700000123456) ex_cfg ex_req) ! i)) =
       JStr (note_label @ u ''no chili'')"
    using C8_note_on_every_job [of "ex_env 1700000123456" ex_cfg ex_req] d e
    by (metis nth_mem to_str.simps(5) ex_req_def body.select_convs(3))
  from b c d e f show ?thesis by simp
qed

section \<open>Determinism of the payloads\<close>

text \<open>
  C9. The payloads of an order, per target, depend on the environment only through the
  order identifier (the last six digits of the clock), the outcome of saving and the
  category collection: two runs that agree on these send the same bytes, whatever the
  rest of the clock and whatever the outcomes of the print calls.
\<close>

theorem C9_payloads_deterministic:
  "make_orderId (now e1) = make_orderId (now e2) \<Longrightarrow> save_error e1 = save_error e2
   \<Longrightarrow> categories_db e1 = categories_db e2
   \<Longrightarrow> order_payloads enc n e1 cfg req = order_payloads enc n e2 cfg req"
  by (simp add: order_payloads_def prints_orderHandler split: option.splits sum.splits)

lemma ex_orderId:
  "make_orderId 1700000123456 = u ''123456'' \<and> make_orderId 1800000123456 = u ''123456''"
  by (simp add: make_orderId_def dec_nat.simps u_def)

theorem C9_payloads_deterministic_witness:
  "(1700000123456 :: nat) \<noteq> 1800000123456
   \<and> make_orderId (now (ex_env 1700000123456)) = make_orderId (now (ex_env_fail 1800000123456))
   \<and> save_error (ex_env 1700000123456) = save_error (ex_env_fail 1800000123456)
   \<and> categories_db (ex_env 1700000123456) = categories_db (ex_env_fail 1800000123456)
   \<and> order_payloads ex_codec 70 (ex_env 1700000123456) ex_cfg ex_req =
       order_payloads ex_codec 70 (ex_env_fail 1800000123456) ex_cfg ex_req
   \<and> length (order_payloads ex_codec 70 (ex_env 1700000123456) ex_cfg ex_req) = 2"
proof -
  have a: "make_orderId (now (ex_env 1700000123456)) = make_orderId (now (ex_env_fail 1800000123456))"
    by (simp add: ex_env_def ex_env_fail_def ex_orderId)
  have b: "save_error (ex_env 1700000123456) = save_error (ex_env_fail 1800000123456)"
    by (simp add: ex_env_def ex_env_fail_def)
  have c: "categories_db (ex_env 1700000123456) = categories_db (ex_env_fail 1800000123456)"
    by (simp add: ex_env_def ex_env_fail_def)
  have d: "length (order_payloads ex_codec 70 (ex_env 1700000123456) ex_cfg ex_req) = 2"
    by (simp add: order_payloads_def ex_prints)
  from a b c d C9_payloads_deterministic [OF a b c, of ex_codec 70 ex_cfg ex_req]
  show ?thesis by simp
qed

section \<open>Isolation of print failures\<close>

lemma responses_append: "responses (xs @ ys) = responses xs @ responses ys"
  by (induction xs rule: responses.induct) simp_all

lemma saves_append: "saves (xs @ ys) = saves xs @ saves ys"
  by (induction xs rule: saves.induct) simp_all

lemma responses_print_block: "responses (print_block e tag oid c) = []"
  by (simp add: print_block_def split: option.splits)

lemma saves_print_block: "saves (print_block e tag oid c) = []"
  by (simp add: print_block_def split: option.splits)

lemma responses_print_stage: "responses (print_stage e cfg oid tbl nt bp) = []"
  by (simp add: print_stage_def responses_append responses_print_block)

lemma saves_print_stage: "saves (print_stage e cfg oid tbl nt bp) = []"
  by (simp add: print_stage_def saves_append saves_print_block)

lemma orderHandler_accepted:
  "b_items req = Some its \<Longrightarrow> its \<noteq> [] \<Longrightarrow> save_error e = None \<Longrightarrow> categories_db e = Inr db \<Longrightarrow>
   orderHandler e cfg req =
     SaveOrder (new_order (make_orderId (now e)) (b_table req) its (b_note req))
     # EmitNewOrder (new_order (make_orderId (now e)) (b_table req) its (b_note req))
     # FindCategories
     # print_stage e cfg (make_orderId (now e)) (b_table req) (b_note req)
         (route (filter active db) its)
     @ [Respond (OkJson (make_orderId (now e)))]"
  by (simp add: orderHandler_def Let_def)

lemma prints_need_save:
  "prints (orderHandler e cfg req) \<noteq> [] \<Longrightarrow>
     save_error e = None \<and> (\<exists>order rest. orderHandler e cfg req = SaveOrder order # rest)"
  by (auto simp: orderHandler_def Let_def split: option.splits sum.splits if_splits)

text \<open>
  C6. A print call is made only after the order was saved, and the save is the first
  effect of the run. Once the order is saved and the categories are read, the handler
  answers with the one response \<^verbatim>\<open>{ ok: true, orderId }\<close>, the order stays saved, and
  the print calls are those of all the jobs: none of this depends on whether a print
  call or the update after it fails.
\<close>

theorem C6_print_failure_isolated:
  "(prints (orderHandler e cfg req) \<noteq> [] \<longrightarrow>
      save_error e = None \<and> (\<exists>order rest. orderHandler e cfg req = SaveOrder order # rest))
   \<and> (b_items req = Some its \<and> its \<noteq> [] \<and> save_error e = None \<and> categories_db e = Inr db \<longrightarrow>
        responses (orderHandler e cfg req) = [OkJson (make_orderId (now e))]
        \<and> last (orderHandler e cfg req) = Respond (OkJson (make_orderId (now e)))
        \<and> saves (orderHandler e cfg req) =
            [new_order (make_orderId (now e)) (b_table req) its (b_note req)]
        \<and> prints (orderHandler e cfg req) =
            map (job_call cfg (make_orderId (now e)) (b_table req) (b_note req))
              (jobs (route (filter active db) its))
        \<and> prints (orderHandler (e\<lparr>print_error := pe, update_error := ue\<rparr>) cfg req) =
            prints (orderHandler e cfg req)
        \<and> responses (orderHandler (e\<lparr>print_error := pe, update_error := ue\<rparr>) cfg req) =
            responses (orderHandler e cfg req))"
proof -
  have a: "prints (orderHandler e cfg req) \<noteq> [] \<longrightarrow>
      save_error e = None \<and> (\<exists>order rest. orderHandler e cfg req = SaveOrder order # rest)"
    using prints_need_save by blast
  have b: "responses (orderHandler e cfg req) = [OkJson (make_orderId (now e))]
        \<and> last (orderHandler e cfg req) = Respond (OkJson (make_orderId (now e)))
        \<and> saves (orderHandler e cfg req) =
            [new_order (make_orderId (now e)) (b_table req) its (b_note req)]
        \<and> prints (orderHandler e cfg req) =
            map (job_call cfg (make_orderId (now e)) (b_table req) (b_note req))
              (jobs (route (filter active db) its))
        \<and> prints (orderHandler (e\<lparr>print_error := pe, update_error := ue\<rparr>) cfg req) =
            prints (orderHandler e cfg req)
        \<and> responses (orderHandler (e\<lparr>print_error := pe, update_error := ue\<rparr>) cfg req) =
            responses (orderHandler e cfg req)"
    if h: "b_items req = Some its" "its \<noteq> []" "save_error e = None" "categories_db e = Inr db"
  proof -
    let ?e' = "e\<lparr>print_error := pe, update_error := ue\<rparr>"
    have e': "save_error ?e' = None" "categories_db ?e' = Inr db" "now ?e' = now e"
      using h by simp_all
    note A = orderHandler_accepted [OF h]
    note B = orderHandler_accepted [OF h(1) h(2) e'(1) e'(2), of cfg]
    have 1: "responses (orderHandler e cfg req) = [OkJson (make_orderId (now e))]"
      by (simp add: A responses_append responses_print_stage)
    have 2: "last (orderHandler e cfg req) = Respond (OkJson (make_orderId (now e)))"
      by (simp add: A)
    have 3: "saves (orderHandler e cfg req) =
            [new_order (make_orderId (now e)) (b_table req) its (b_note req)]"
      by (simp add: A saves_append saves_print_stage)
    have 4: "prints (orderHandler e cfg req) =
            map (job_call cfg (make_orderId (now e)) (b_table req) (b_note req))
              (jobs (route (filter active db) its))"
      by (simp add: prints_orderHandler h)
    have 5: "prints (orderHandler ?e' cfg req) = prints (orderHandler e cfg req)"
      by (simp add: prints_orderHandler h)
    have 6: "responses (orderHandler ?e' cfg req) = responses (orderHandler e cfg req)"
      by (simp add: 1 B e'(3) responses_append responses_print_stage)
    from 1 2 3 4 5 6 show ?thesis by blast
  qed
  from a b show ?thesis by blast
qed

lemma ex_fail_effects:
  "orderHandler (ex_env_fail 1700000123456) ex_cfg ex_req =
     [SaveOrder (new_order (u ''123456'') (JStr (u ''5'')) [ex_pork, ex_squid] (JStr (u ''no chili''))),
      EmitNewOrder (new_order (u ''123456'') (JStr (u ''5'')) [ex_pork, ex_squid] (JStr (u ''no chili''))),
      FindCategories,
      Print (epson_call ex_cfg (u ''123456'') (makeLines (JStr (u ''5'')) (JStr (u ''no chili'')) [ex_pork])),
      ConsoleError (u ''Print EPSON error:'') (u ''Printer timeout''),
      Print (xprinter_call ex_cfg (u ''123456'') (makeLines (JStr (u ''5'')) (JStr (u ''no chili'')) [ex_squid])),
      ConsoleError (u ''Print XPRINTER error:'') (u ''Printer timeout''),
      Respond (OkJson (u ''123456''))]"
proof -
  have r: "route (filter active ex_db) [ex_pork, ex_squid] EPSON = [ex_pork]"
    "route (filter active ex_db) [ex_pork, ex_squid] XPRINTER = [ex_squid]"
    using ex_resolve by (simp_all add: route_filter ex_db_def)
  have h: "b_items ex_req = Some [ex_pork, ex_squid]" "[ex_pork, ex_squid] \<noteq> []"
    "save_error (ex_env_fail 1700000123456) = None"
    "categories_db (ex_env_fail 1700000123456) = Inr ex_db"
    by (simp_all add: ex_req_def ex_env_fail_def)
  show ?thesis
    unfolding orderHandler_accepted [OF h]
    by (simp add: print_stage_def r print_block_def ex_orderId)
      (simp add: ex_env_fail_def ex_req_def ex_orderId)
qed

theorem C6_print_failure_isolated_witness:
  "prints (orderHandler (ex_env_fail 1700000123456) ex_cfg ex_req) \<noteq> []
   \<and> b_items ex_req = Some [ex_pork, ex_squid] \<and> [ex_pork, ex_squid] \<noteq> []
   \<and> save_error (ex_env_fail 1700000123456) = None
   \<and> categories_db (ex_env_fail 1700000123456) = Inr ex_db
   \<and> print_error (ex_env_fail 1700000123456)
        (epson_call ex_cfg (u ''123456'') (makeLines (JStr (u ''5'')) (JStr (u ''no chili'')) [ex_pork]))
       = Some (u ''Printer timeout'')
   \<and> responses (orderHandler (ex_env_fail 1700000123456) ex_cfg ex_req) = [OkJson (u ''123456'')]
   \<and> length (prints (orderHandler (ex_env_fail 1700000123456) ex_cfg ex_req)) = 2
   \<and> saves (orderHandler (ex_env_fail 1700000123456) ex_cfg ex_req) =
       [new_order (u ''123456'') (JStr (u ''5'')) [ex_pork, ex_squid] (JStr (u ''no chili''))]"
  using C6_print_failure_isolated [of "ex_env_fail 1700000123456" ex_cfg ex_req
      "[ex_pork, ex_squid]" ex_db "\<lambda>_. None" "\<lambda>_. None"]
  by (simp add: ex_fail_effects) (simp add: ex_env_fail_def ex_req_def)

section \<open>Properties of the delivery\<close>

lemmas escpos_defs = escpos_fire_def escpos_on_timer_def escpos_on_timeout_def
  escpos_on_close_timer_def escpos_event_def escpos_on_connect_def escpos_on_written_def
  escpos_on_error_def settle_def

lemma fire_next_F: "phaseF s \<Longrightarrow> phaseF (fire_next escpos_fire limit s)"
  by (auto simp: phaseF_def fire_next_def escpos_defs split: option.splits timer_id.splits)

lemma fire_next_R: "phaseR s \<Longrightarrow> phaseR (fire_next escpos_fire limit s)"
  by (auto simp: phaseR_def fire_next_def next_timer_def earlier_def escpos_defs
      split: option.splits timer_id.splits if_splits)

lemma fire_next_A:
  "phaseA s \<Longrightarrow> fire_next escpos_fire (Some l) s = s \<and> l < 12000 \<or> phaseF (fire_next escpos_fire (Some l) s)"
  by (cases "idle_timer s")
    (auto simp: phaseA_def phaseF_def fire_next_def next_timer_def earlier_def escpos_defs)

lemma fire_next_B:
  "phaseB s \<Longrightarrow> fire_next escpos_fire (Some l) s = s \<and> (\<exists>w. written_at s = Some w \<and> l < w + 200)
     \<or> phaseR (fire_next escpos_fire (Some l) s)"
proof -
  assume "phaseB s"
  then obtain w where w: "promise s = None" "timer s = None" "sock s = Connected"
    "closed_at s = None" "w < 12000" "written_at s = Some w" "close_timer s = Some (w + 200)"
    "idle_timer s = Some (w + 10000)"
    by (auto simp: phaseB_def)
  have n: "next_timer s = Some (w + 200, CloseDelay)"
    by (simp add: next_timer_def earlier_def w)
  show ?thesis
  proof (cases "w + 200 \<le> l")
    case True
    then have "phaseR (fire_next escpos_fire (Some l) s)"
      by (simp add: fire_next_def n phaseR_def escpos_defs w)
    then show ?thesis ..
  next
    case False
    then show ?thesis by (simp add: fire_next_def n w)
  qed
qed

lemma fire_next_A_final: "phaseA s \<Longrightarrow> phaseF (fire_next escpos_fire None s)"
  by (cases "idle_timer s")
    (auto simp: phaseA_def phaseF_def fire_next_def next_timer_def earlier_def escpos_defs)

lemma fire_next_B_final: "phaseB s \<Longrightarrow> phaseR (fire_next escpos_fire None s)"
  by (auto simp: phaseB_def phaseR_def fire_next_def next_timer_def earlier_def escpos_defs)


lemma fire_due_F: "phaseF s \<Longrightarrow> phaseF (fire_due escpos_fire limit s)"
  by (simp add: fire_due_def fire_next_F)

lemma fire_due_R: "phaseR s \<Longrightarrow> phaseR (fire_due escpos_fire limit s)"
  by (simp add: fire_due_def fire_next_R)

lemma fire_due_A:
  "phaseA s \<Longrightarrow> fire_due escpos_fire (Some l) s = s \<and> l < 12000 \<or> phaseF (fire_due escpos_fire (Some l) s)"
  unfolding fire_due_def using fire_next_A fire_next_F by metis

lemma fire_due_B:
  "phaseB s \<Longrightarrow> fire_due escpos_fire (Some l) s = s \<and> (\<exists>w. written_at s = Some w \<and> l < w + 200)
     \<or> phaseR (fire_due escpos_fire (Some l) s)"
  unfolding fire_due_def using fire_next_B fire_next_R by metis

lemma fire_due_final: "inv s \<Longrightarrow> phaseR (fire_due escpos_fire None s) \<or> phaseF (fire_due escpos_fire None s)"
  unfolding fire_due_def inv_def
  using fire_next_A_final fire_next_B_final fire_next_R fire_next_F by metis

lemma event_F: "phaseF s \<Longrightarrow> phaseF (escpos_event p ev t s)"
  by (auto simp: phaseF_def escpos_defs split: net_event.splits)

lemma event_R: "phaseR s \<Longrightarrow> phaseR (escpos_event p ev t s)"
  by (auto simp: phaseR_def escpos_defs split: net_event.splits)

lemma event_A: "phaseA s \<Longrightarrow> t < 12000 \<Longrightarrow> inv (escpos_event p ev t s)"
  by (cases ev) (auto simp: inv_def phaseA_def phaseB_def phaseF_def escpos_defs)

lemma event_B:
  "phaseB s \<Longrightarrow> written_at s = Some w \<Longrightarrow> t < w + 200 \<Longrightarrow> inv (escpos_event p ev t s)"
  by (cases ev) (auto simp: inv_def phaseB_def phaseF_def escpos_defs)

lemma step_inv: "inv s \<Longrightarrow> inv (escpos_event p ev t (fire_due escpos_fire (Some t) s))"
proof -
  assume "inv s"
  then consider "phaseA s" | "phaseB s" | "phaseR s" | "phaseF s"
    by (auto simp: inv_def)
  then show ?thesis
  proof cases
    case 1
    from fire_due_A [OF 1, of t] show ?thesis
    proof
      assume "fire_due escpos_fire (Some t) s = s \<and> t < 12000"
      then show ?thesis using event_A [OF 1] by simp
    next
      assume "phaseF (fire_due escpos_fire (Some t) s)"
      then show ?thesis by (simp add: inv_def event_F)
    qed
  next
    case 2
    from fire_due_B [OF 2, of t] show ?thesis
    proof
      assume "fire_due escpos_fire (Some t) s = s \<and> (\<exists>w. written_at s = Some w \<and> t < w + 200)"
      then show ?thesis using event_B [OF 2] by auto
    next
      assume "phaseR (fire_due escpos_fire (Some t) s)"
      then show ?thesis by (simp add: inv_def event_R)
    qed
  next
    case 3
    then show ?thesis by (simp add: inv_def fire_due_R event_R)
  next
    case 4
    then show ?thesis by (simp add: inv_def fire_due_F event_F)
  qed
qed

lemma run_final:
  "inv s \<Longrightarrow> phaseR (run (escpos_event p) escpos_fire network t s)
     \<or> phaseF (run (escpos_event p) escpos_fire network t s)"
proof (induction network arbitrary: t s)
  case Nil
  then show ?case by (simp add: fire_due_final)
next
  case (Cons a network)
  obtain d ev where a: "a = (d, ev)" by (cases a)
  show ?case
    unfolding a run.simps
    by (rule Cons.IH) (rule step_inv [OF Cons.prems])
qed

lemma inv_start: "inv escpos_start"
  by (simp add: inv_def phaseA_def escpos_start_def)

lemma escpos_print_final: "phaseR (escpos_print p network) \<or> phaseF (escpos_print p network)"
  unfolding escpos_print_def by (rule run_final [OF inv_start])


lemma fire_next_refused: "refused s \<Longrightarrow> refused (fire_next escpos_fire limit s)"
  by (auto simp: refused_def fire_next_def escpos_defs split: option.splits timer_id.splits)

lemma fire_next_waiting:
  "waiting s \<Longrightarrow> fire_next escpos_fire (Some l) s = s \<and> l < 10000
     \<or> refused (fire_next escpos_fire (Some l) s)"
  by (auto simp: waiting_def refused_def fire_next_def next_timer_def earlier_def escpos_defs)

lemma fire_next_waiting_final: "waiting s \<Longrightarrow> refused (fire_next escpos_fire None s)"
  by (auto simp: waiting_def refused_def fire_next_def next_timer_def earlier_def escpos_defs)

lemma fire_due_waiting:
  "waiting s \<Longrightarrow> fire_due escpos_fire (Some l) s = s \<and> l < 10000
     \<or> refused (fire_due escpos_fire (Some l) s)"
  unfolding fire_due_def using fire_next_waiting fire_next_refused by metis

lemma fire_due_refused: "refused s \<Longrightarrow> refused (fire_due escpos_fire limit s)"
  by (simp add: fire_due_def fire_next_refused)

lemma fire_due_waiting_final: "waiting s \<Longrightarrow> refused (fire_due escpos_fire None s)"
  by (simp add: fire_due_def fire_next_refused fire_next_waiting_final)

lemma event_refused: "refused s \<Longrightarrow> refused (escpos_event p ev t s)"
  by (auto simp: refused_def escpos_defs split: net_event.splits)

lemma event_waiting:
  "waiting s \<Longrightarrow> t < 10000 \<Longrightarrow> ev \<noteq> NetConnected \<Longrightarrow>
     waiting (escpos_event p ev t s) \<or> refused (escpos_event p ev t s)"
  by (cases ev) (auto simp: waiting_def refused_def escpos_defs)

lemma run_never_accepted:
  "waiting s \<or> refused s \<Longrightarrow> NetConnected \<notin> snd ` set network \<Longrightarrow>
     refused (run (escpos_event p) escpos_fire network t s)"
proof (induction network arbitrary: t s)
  case Nil
  then show ?case using fire_due_waiting_final fire_due_refused by auto
next
  case (Cons a network)
  obtain d ev where a: "a = (d, ev)" by (cases a)
  from Cons.prems(2) a have ev: "ev \<noteq> NetConnected" and rest: "NetConnected \<notin> snd ` set network"
    by auto
  have "waiting (escpos_event p ev (t + d) (fire_due escpos_fire (Some (t + d)) s))
      \<or> refused (escpos_event p ev (t + d) (fire_due escpos_fire (Some (t + d)) s))"
  proof (cases "waiting s")
    case True
    from fire_due_waiting [OF True, of "t + d"] show ?thesis
    proof
      assume "fire_due escpos_fire (Some (t + d)) s = s \<and> t + d < 10000"
      then show ?thesis using event_waiting [OF True _ ev] by simp
    next
      assume "refused (fire_due escpos_fire (Some (t + d)) s)"
      then show ?thesis by (simp add: event_refused)
    qed
  next
    case False
    with Cons.prems(1) have "refused s" by simp
    then show ?thesis by (simp add: fire_due_refused event_refused)
  qed
  then show ?case
    unfolding a run.simps by (rule Cons.IH) (rule rest)
qed

lemma waiting_start: "waiting escpos_start"
  by (simp add: waiting_def escpos_start_def)

lemma escpos_print_never_accepted:
  "NetConnected \<notin> snd ` set network \<Longrightarrow> refused (escpos_print p network)"
  unfolding escpos_print_def using run_never_accepted waiting_start by blast

lemma escpos_quiet:
  "escpos_print p [] = escpos_start\<lparr>timer := None, idle_timer := None,
     promise := Some (Rejected printer_timeout), settled_at := Some 10000\<rparr>"
  by (simp add: escpos_print_def fire_due_def fire_next_def next_timer_def earlier_def
      escpos_start_def escpos_defs)

lemma alt_quiet:
  "alt_print p [] = alt_start\<lparr>sock := Destroyed, timer := None, closed_at := Some 4000,
     promise := Some (Rejected printer_timeout), settled_at := Some 4000\<rparr>"
  by (simp add: alt_print_def fire_due_def fire_next_def next_timer_def earlier_def
      alt_start_def alt_fire_def alt_on_timer_def settle_def)

lemma escpos_success:
  "escpos_print p [(10, NetConnected), (5, NetWritten)] =
     \<lparr> sock = Ended, sent = Some p, timer = None, idle_timer = None, close_timer = None,
       promise = Some Resolved, settled_at = Some 215, written_at = Some 15, closed_at = Some 215 \<rparr>"
  by (simp add: escpos_print_def fire_due_def fire_next_def next_timer_def earlier_def
      escpos_start_def escpos_defs)

lemma alt_success:
  "alt_print p [(10, NetConnected), (5, NetWritten)] =
     \<lparr> sock = Ended, sent = Some p, timer = None, idle_timer = None, close_timer = None,
       promise = Some Resolved, settled_at = Some 15, written_at = Some 15, closed_at = Some 15 \<rparr>"
  by (simp add: alt_print_def fire_due_def fire_next_def next_timer_def earlier_def
      alt_start_def alt_fire_def alt_event_def alt_on_connect_def alt_on_written_def settle_def)


text \<open>The same invariants for the second module.\<close>

lemmas alt_defs = alt_fire_def alt_on_timer_def alt_event_def alt_on_connect_def
  alt_on_written_def alt_on_error_def settle_def

lemma alt_fire_next_done: "alt_done s \<Longrightarrow> alt_done (fire_next alt_fire limit s)"
  by (auto simp: alt_done_def fire_next_def alt_defs split: option.splits timer_id.splits)

lemma alt_fire_next_armed:
  "alt_armed s \<Longrightarrow> fire_next alt_fire (Some l) s = s \<and> l < 4000
     \<or> alt_done (fire_next alt_fire (Some l) s)"
  by (auto simp: alt_armed_def alt_done_def fire_next_def next_timer_def earlier_def alt_defs)

lemma alt_fire_next_armed_final: "alt_armed s \<Longrightarrow> alt_done (fire_next alt_fire None s)"
  by (auto simp: alt_armed_def alt_done_def fire_next_def next_timer_def earlier_def alt_defs)

lemma alt_fire_due_done: "alt_done s \<Longrightarrow> alt_done (fire_due alt_fire limit s)"
  by (simp add: fire_due_def alt_fire_next_done)

lemma alt_fire_due_armed:
  "alt_armed s \<Longrightarrow> fire_due alt_fire (Some l) s = s \<and> l < 4000
     \<or> alt_done (fire_due alt_fire (Some l) s)"
  unfolding fire_due_def using alt_fire_next_armed alt_fire_next_done by metis

lemma alt_fire_due_final: "alt_armed s \<or> alt_done s \<Longrightarrow> alt_done (fire_due alt_fire None s)"
  unfolding fire_due_def using alt_fire_next_armed_final alt_fire_next_done by metis

lemma alt_event_done: "alt_done s \<Longrightarrow> alt_done (alt_event p ev t s)"
  by (auto simp: alt_done_def alt_defs split: net_event.splits)

lemma alt_event_armed:
  "alt_armed s \<Longrightarrow> t < 4000 \<Longrightarrow> alt_armed (alt_event p ev t s) \<or> alt_done (alt_event p ev t s)"
  by (cases ev) (auto simp: alt_armed_def alt_done_def alt_defs)

lemma alt_step:
  "alt_armed s \<or> alt_done s \<Longrightarrow>
     alt_armed (alt_event p ev t (fire_due alt_fire (Some t) s))
     \<or> alt_done (alt_event p ev t (fire_due alt_fire (Some t) s))"
proof (cases "alt_armed s")
  case True
  from alt_fire_due_armed [OF True, of t] show ?thesis
  proof
    assume "fire_due alt_fire (Some t) s = s \<and> t < 4000"
    then show ?thesis using alt_event_armed [OF True] by simp
  next
    assume "alt_done (fire_due alt_fire (Some t) s)"
    then show ?thesis by (simp add: alt_event_done)
  qed
next
  case False
  assume "alt_armed s \<or> alt_done s"
  with False have "alt_done s" by simp
  then show ?thesis by (simp add: alt_fire_due_done alt_event_done)
qed

lemma alt_run_final:
  "alt_armed s \<or> alt_done s \<Longrightarrow> alt_done (run (alt_event p) alt_fire network t s)"
proof (induction network arbitrary: t s)
  case Nil
  then show ?case by (simp add: alt_fire_due_final)
next
  case (Cons a network)
  obtain d ev where a: "a = (d, ev)" by (cases a)
  show ?case
    unfolding a run.simps by (rule Cons.IH) (rule alt_step [OF Cons.prems])
qed

lemma alt_print_final: "alt_done (alt_print p network)"
  unfolding alt_print_def
  by (rule alt_run_final) (simp add: alt_armed_def alt_start_def)

lemma alt_fire_next_refused: "alt_refused s \<Longrightarrow> alt_refused (fire_next alt_fire limit s)"
  by (auto simp: alt_refused_def fire_next_def alt_defs split: option.splits timer_id.splits)

lemma alt_fire_next_waiting:
  "alt_waiting s \<Longrightarrow> fire_next alt_fire (Some l) s = s \<and> l < 4000
     \<or> alt_refused (fire_next alt_fire (Some l) s)"
  by (auto simp: alt_waiting_def alt_armed_def alt_refused_def fire_next_def next_timer_def
      earlier_def alt_defs)

lemma alt_fire_next_waiting_final: "alt_waiting s \<Longrightarrow> alt_refused (fire_next alt_fire None s)"
  by (auto simp: alt_waiting_def alt_armed_def alt_refused_def fire_next_def next_timer_def
      earlier_def alt_defs)

lemma alt_fire_due_refused: "alt_refused s \<Longrightarrow> alt_refused (fire_due alt_fire limit s)"
  by (simp add: fire_due_def alt_fire_next_refused)

lemma alt_fire_due_waiting:
  "alt_waiting s \<Longrightarrow> fire_due alt_fire (Some l) s = s \<and> l < 4000
     \<or> alt_refused (fire_due alt_fire (Some l) s)"
  unfolding fire_due_def using alt_fire_next_waiting alt_fire_next_refused by metis

lemma alt_fire_due_waiting_final:
  "alt_waiting s \<or> alt_refused s \<Longrightarrow> alt_refused (fire_due alt_fire None s)"
  unfolding fire_due_def using alt_fire_next_waiting_final alt_fire_next_refused by metis

lemma alt_event_refused: "alt_refused s \<Longrightarrow> alt_refused (alt_event p ev t s)"
  by (auto simp: alt_refused_def alt_defs split: net_event.splits)

lemma alt_event_waiting:
  "alt_waiting s \<Longrightarrow> t < 4000 \<Longrightarrow> ev \<noteq> NetConnected \<Longrightarrow>
     alt_waiting (alt_event p ev t s) \<or> alt_refused (alt_event p ev t s)"
  by (cases ev) (auto simp: alt_waiting_def alt_armed_def alt_refused_def alt_defs)

lemma alt_run_never_accepted:
  "alt_waiting s \<or> alt_refused s \<Longrightarrow> NetConnected \<notin> snd ` set network \<Longrightarrow>
     alt_refused (run (alt_event p) alt_fire network t s)"
proof (induction network arbitrary: t s)
  case Nil
  then show ?case by (simp add: alt_fire_due_waiting_final)
next
  case (Cons a network)
  obtain d ev where a: "a = (d, ev)" by (cases a)
  from Cons.prems(2) a have ev: "ev \<noteq> NetConnected" and rest: "NetConnected \<notin> snd ` set network"
    by auto
  have "alt_waiting (alt_event p ev (t + d) (fire_due alt_fire (Some (t + d)) s))
      \<or> alt_refused (alt_event p ev (t + d) (fire_due alt_fire (Some (t + d)) s))"
  proof (cases "alt_waiting s")
    case True
    from alt_fire_due_waiting [OF True, of "t + d"] show ?thesis
    proof
      assume "fire_due alt_fire (Some (t + d)) s = s \<and> t + d < 4000"
      then show ?thesis using alt_event_waiting [OF True _ ev] by simp
    next
      assume "alt_refused (fire_due alt_fire (Some (t + d)) s)"
      then show ?thesis by (simp add: alt_event_refused)
    qed
  next
    case False
    with Cons.prems(1) have "alt_refused s" by simp
    then show ?thesis by (simp add: alt_fire_due_refused alt_event_refused)
  qed
  then show ?case
    unfolding a run.simps by (rule Cons.IH) (rule rest)
qed

lemma alt_print_never_accepted:
  "NetConnected \<notin> snd ` set network \<Longrightarrow> alt_refused (alt_print p network)"
  unfolding alt_print_def
  by (rule alt_run_never_accepted) (simp_all add: alt_waiting_def alt_armed_def alt_start_def)

text \<open>
  In services/escposPrinter.js a call that resolves has ended the socket 200 ms after
  the write completed, and the write callback itself leaves the socket open.
\<close>

lemma escpos_holds_connection:
  "promise (escpos_print p network) = Some Resolved \<Longrightarrow>
     \<exists>w. written_at (escpos_print p network) = Some w
        \<and> closed_at (escpos_print p network) = Some (w + 200)
        \<and> settled_at (escpos_print p network) = Some (w + 200)"
  using escpos_print_final [of p network] by (auto simp: phaseR_def phaseF_def)

lemma escpos_on_written_keeps_open:
  "sock (escpos_on_written t s) = sock s \<and> promise (escpos_on_written t s) = promise s
   \<and> closed_at (escpos_on_written t s) = closed_at s
   \<and> (sock s = Connected \<and> sent s \<noteq> None \<and> written_at s = None \<longrightarrow>
        close_timer (escpos_on_written t s) = Some (t + 200))"
  by (simp add: escpos_on_written_def)

text \<open>
  C5. In the second module the write callback ends the socket itself: with a printer
  that accepts after 10 ms and takes the payload 5 ms later, the socket is ended at
  15 ms, the moment the write completes. The same run of services/escposPrinter.js ends
  the socket at 215 ms.
\<close>

theorem C5_second_module_closes_at_once:
  "written_at (printEpson_alt ex_codec ex_epson_call [(10, NetConnected), (5, NetWritten)]) = Some 15
   \<and> closed_at (printEpson_alt ex_codec ex_epson_call [(10, NetConnected), (5, NetWritten)]) = Some 15
   \<and> sock (printEpson_alt ex_codec ex_epson_call [(10, NetConnected), (5, NetWritten)]) = Ended
   \<and> promise (printEpson_alt ex_codec ex_epson_call [(10, NetConnected), (5, NetWritten)]) =
       Some Resolved
   \<and> sock (alt_on_written 15 (alt_on_connect cutPaper_alt 10 alt_start)) = Ended
   \<and> written_at (printEpson ex_codec ex_epson_call [(10, NetConnected), (5, NetWritten)]) = Some 15
   \<and> closed_at (printEpson ex_codec ex_epson_call [(10, NetConnected), (5, NetWritten)]) = Some 215"
  by (simp add: printEpson_alt_def printEpson_def alt_success escpos_success)
    (simp add: alt_on_written_def alt_on_connect_def alt_start_def settle_def)

text \<open>
  C4, as stated, fails. No deadline is configurable: the delays are constants of the
  code, and the one of the second module, 4 s, is not between 10 s and 12 s.
  services/escposPrinter.js arms two timers, the deadline of 12 s and the socket
  inactivity timeout of 10 s: when the connection is never accepted, the inactivity
  timeout reports the failure at 10 s, and its listener does not destroy the socket.
\<close>

theorem C4_fixed_timers_counterexample:
  "timer escpos_start = Some 12000
   \<and> idle_timer escpos_start = Some 10000
   \<and> timer alt_start = Some 4000
   \<and> \<not> (10000 \<le> (4000 :: nat))
   \<and> promise (printEpson ex_codec ex_epson_call []) = Some (Rejected printer_timeout)
   \<and> settled_at (printEpson ex_codec ex_epson_call []) = Some 10000
   \<and> sock (printEpson ex_codec ex_epson_call []) = Connecting
   \<and> closed_at (printEpson ex_codec ex_epson_call []) = None
   \<and> settled_at (printEpson_alt ex_codec ex_epson_call []) = Some 4000"
  by (simp add: printEpson_def printEpson_alt_def escpos_quiet alt_quiet)
    (simp add: escpos_start_def alt_start_def)

text \<open>
  C4, amended. Each print function arms one deadline with a constant delay, 12 s in
  services/escposPrinter.js and 4 s in the second module, before the connection starts;
  the connect callback leaves it armed; its callback destroys the socket and rejects
  with the timeout error. Whatever the network does, every call settles: within 12.2 s
  in services/escposPrinter.js, within 4 s in the second module. When the connection is
  never accepted the call is rejected within the deadline: within 10 s in
  services/escposPrinter.js, within 4 s and with the socket destroyed in the second
  module.
\<close>

theorem C4_deadline:
  "timer escpos_start = Some 12000 \<and> timer alt_start = Some 4000
   \<and> timer (escpos_on_connect p t s) = timer s \<and> timer (alt_on_connect p t s) = timer s
   \<and> sock (escpos_on_timer t s) = Destroyed \<and> sock (alt_on_timer t s) = Destroyed
   \<and> (promise s = None \<longrightarrow>
        promise (escpos_on_timer t s) = Some (Rejected printer_timeout)
        \<and> promise (alt_on_timer t s) = Some (Rejected printer_timeout))
   \<and> (\<exists>ts < 12200. promise (printEpson enc c network) \<noteq> None
          \<and> settled_at (printEpson enc c network) = Some ts)
   \<and> (\<exists>ts < 12200. promise (printXprinterThaiCP874 enc n c network) \<noteq> None
          \<and> settled_at (printXprinterThaiCP874 enc n c network) = Some ts)
   \<and> (\<exists>ts \<le> 4000. promise (printEpson_alt enc c network) \<noteq> None
          \<and> settled_at (printEpson_alt enc c network) = Some ts)
   \<and> (\<exists>ts \<le> 4000. promise (printXprinterThaiCP874_alt enc c network) \<noteq> None
          \<and> settled_at (printXprinterThaiCP874_alt enc c network) = Some ts)
   \<and> (NetConnected \<notin> snd ` set network \<longrightarrow>
        (\<exists>m ts. promise (printEpson enc c network) = Some (Rejected m)
           \<and> settled_at (printEpson enc c network) = Some ts \<and> ts \<le> 10000 \<and> ts < 12000)
        \<and> (\<exists>m ts. promise (printXprinterThaiCP874 enc n c network) = Some (Rejected m)
           \<and> settled_at (printXprinterThaiCP874 enc n c network) = Some ts \<and> ts \<le> 10000
           \<and> ts < 12000)
        \<and> (\<exists>m ts. promise (printEpson_alt enc c network) = Some (Rejected m)
           \<and> settled_at (printEpson_alt enc c network) = Some ts \<and> ts \<le> 4000
           \<and> sock (printEpson_alt enc c network) = Destroyed)
        \<and> (\<exists>m ts. promise (printXprinterThaiCP874_alt enc c network) = Some (Rejected m)
           \<and> settled_at (printXprinterThaiCP874_alt enc c network) = Some ts \<and> ts \<le> 4000
           \<and> sock (printXprinterThaiCP874_alt enc c network) = Destroyed))"
proof -
  have settles: "\<exists>ts < 12200. promise (escpos_print q network) \<noteq> None
          \<and> settled_at (escpos_print q network) = Some ts" for q
    using escpos_print_final [of q network] by (auto simp: phaseR_def phaseF_def)
  have alt_settles: "\<exists>ts \<le> 4000. promise (alt_print q network) \<noteq> None
          \<and> settled_at (alt_print q network) = Some ts" for q
    using alt_print_final [of q network] by (auto simp: alt_done_def)
  have refuses: "\<exists>m ts. promise (escpos_print q network) = Some (Rejected m)
           \<and> settled_at (escpos_print q network) = Some ts \<and> ts \<le> 10000 \<and> ts < 12000"
    if "NetConnected \<notin> snd ` set network" for q
    using escpos_print_never_accepted [OF that, of q] by (auto simp: refused_def)
  have alt_refuses: "\<exists>m ts. promise (alt_print q network) = Some (Rejected m)
           \<and> settled_at (alt_print q network) = Some ts \<and> ts \<le> 4000
           \<and> sock (alt_print q network) = Destroyed"
    if "NetConnected \<notin> snd ` set network" for q
    using alt_print_never_accepted [OF that, of q] by (auto simp: alt_refused_def)
  have a: "timer escpos_start = Some 12000 \<and> timer alt_start = Some 4000"
    by (simp add: escpos_start_def alt_start_def)
  have b: "timer (escpos_on_connect p t s) = timer s \<and> timer (alt_on_connect p t s) = timer s"
    by (simp add: escpos_on_connect_def alt_on_connect_def)
  have c: "sock (escpos_on_timer t s) = Destroyed \<and> sock (alt_on_timer t s) = Destroyed"
    by (simp add: escpos_on_timer_def alt_on_timer_def settle_def)
  have d: "promise s = None \<longrightarrow>
        promise (escpos_on_timer t s) = Some (Rejected printer_timeout)
        \<and> promise (alt_on_timer t s) = Some (Rejected printer_timeout)"
    by (simp add: escpos_on_timer_def alt_on_timer_def settle_def)
  show ?thesis
    unfolding printEpson_def printXprinterThaiCP874_def printEpson_alt_def
      printXprinterThaiCP874_alt_def
    using a b c d settles alt_settles refuses alt_refuses by blast
qed

theorem C4_deadline_witness:
  "NetConnected \<notin> snd ` set [(3000, NetError (u ''ECONNREFUSED''))]
   \<and> promise (printEpson ex_codec ex_epson_call [(3000, NetError (u ''ECONNREFUSED''))]) =
       Some (Rejected (u ''ECONNREFUSED''))
   \<and> settled_at (printEpson ex_codec ex_epson_call [(3000, NetError (u ''ECONNREFUSED''))]) =
       Some 3000
   \<and> promise escpos_start = None
   \<and> promise (escpos_on_timer 12000 escpos_start) = Some (Rejected printer_timeout)"
  using C4_deadline [where s = escpos_start and t = 12000 and enc = ex_codec
      and c = ex_epson_call and network = "[(3000, NetError (u ''ECONNREFUSED''))]"]
  by (simp add: printEpson_def escpos_print_def fire_due_def fire_next_def next_timer_def
      earlier_def escpos_start_def escpos_defs)


end
